theory Spec2Isabelle
  imports Complex_Main
begin

section \<open>Python values and the builtins the viewer uses\<close>

text \<open>
  The program is \<^verbatim>\<open>visual_inspection.py\<close>: an annotation parser
  (\<^verbatim>\<open>parse_annotations\<close>), a box renderer (\<^verbatim>\<open>draw_bounding_boxes\<close>) and a
  Tkinter application class (\<^verbatim>\<open>BoundingBoxViewerApp\<close>).

  Conventions of the embedding.
  \<^item> Python's \<^verbatim>\<open>int\<close> is \<open>int\<close>. Python's \<^verbatim>\<open>float\<close> is \<open>real\<close>: arithmetic is
    exact, so IEEE rounding, overflow and the non-finite floats are not represented.
  \<^item> A \<^verbatim>\<open>str\<close> is a \<open>string\<close> of ASCII characters.
  \<^item> An exception is a value of \<open>exn\<close>; a computation that can raise returns
    \<open>exn + 'a\<close> with \<open>Inl\<close> for the exception.
  \<^item> \<^verbatim>\<open>print\<close> appends a \<open>log_msg\<close> to a log that the functions return.
\<close>

datatype exn =
    FileNotFoundError
  | JSONDecodeError
  | ParseError
  | ValueError
  | TypeError
  | AttributeError
  | IndexError
  | KeyError
  | ZeroDivisionError
  | OSError

text \<open>
  What \<^verbatim>\<open>json.load\<close> returns, and more generally the dynamically typed values the
  parser stores under \<^verbatim>\<open>'label'\<close>. A \<^verbatim>\<open>dict\<close> is an association list with
  string keys (the first entry of a key is the one looked up).
\<close>

datatype pyval =
    PNone
  | PBool bool
  | PInt int
  | PFloat real
  | PStr string
  | PList "pyval list"
  | PDict "(string \<times> pyval) list"

subsection \<open>Strings\<close>

definition is_space :: "char \<Rightarrow> bool" where
  \<comment> \<open>\<^verbatim>\<open>str.isspace\<close> on ASCII: tab, LF, VT, FF, CR, FS, GS, RS, US and the space.\<close>
  "is_space c = (c \<in> set [CHR 0x09, CHR 0x0A, CHR 0x0B, CHR 0x0C, CHR 0x0D,
                            CHR 0x1C, CHR 0x1D, CHR 0x1E, CHR 0x1F, CHR 0x20])"

definition strip :: "string \<Rightarrow> string" where
  \<comment> \<open>\<^verbatim>\<open>s.strip()\<close>\<close>
  "strip s = rev (dropWhile is_space (rev (dropWhile is_space s)))"

fun split_from :: "string \<Rightarrow> string \<Rightarrow> string list" where
  \<comment> \<open>the first argument is the token read so far\<close>
  "split_from cur [] = (if cur = [] then [] else [cur])"
| "split_from cur (c # cs) =
     (if is_space c then (if cur = [] then split_from [] cs else cur # split_from [] cs)
      else split_from (cur @ [c]) cs)"

definition split :: "string \<Rightarrow> string list" where
  \<comment> \<open>\<^verbatim>\<open>s.split()\<close>: the maximal runs of non-blank characters\<close>
  "split s = split_from [] s"

definition lower_char :: "char \<Rightarrow> char" where
  "lower_char c =
     (case map_of (zip ''ABCDEFGHIJKLMNOPQRSTUVWXYZ'' ''abcdefghijklmnopqrstuvwxyz'') c of
        Some d \<Rightarrow> d
      | None \<Rightarrow> c)"

definition lower :: "string \<Rightarrow> string" where
  \<comment> \<open>\<^verbatim>\<open>s.lower()\<close>\<close>
  "lower s = map lower_char s"

fun startswith :: "string \<Rightarrow> string \<Rightarrow> bool" where
  "startswith s [] = True"
| "startswith [] (p # ps) = False"
| "startswith (c # cs) (p # ps) = (c = p \<and> startswith cs ps)"

fun str_contains :: "string \<Rightarrow> string \<Rightarrow> bool" where
  \<comment> \<open>\<^verbatim>\<open>sub in s\<close> for two strings; \<open>str_contains s sub\<close>\<close>
  "str_contains [] sub = (sub = [])"
| "str_contains (c # cs) sub = (startswith (c # cs) sub \<or> str_contains cs sub)"

subsection \<open>Numbers from and to strings\<close>

definition digit_val :: "char \<Rightarrow> nat option" where
  "digit_val c = map_of (zip ''0123456789'' [0, 1, 2, 3, 4, 5, 6, 7, 8, 9]) c"

definition is_digit :: "char \<Rightarrow> bool" where
  "is_digit c = (digit_val c \<noteq> None)"

fun digits_ok :: "string \<Rightarrow> bool" where
  \<comment> \<open>a digit group of a Python literal: digits, with single underscores between them\<close>
  "digits_ok [] = False"
| "digits_ok [c] = is_digit c"
| "digits_ok (c # d # cs) =
     (is_digit c \<and> (if d = CHR ''_'' then digits_ok cs else digits_ok (d # cs)))"

fun digits_nat :: "nat \<Rightarrow> string \<Rightarrow> nat" where
  \<comment> \<open>the value of a digit group, underscores skipped; the first argument accumulates\<close>
  "digits_nat acc [] = acc"
| "digits_nat acc (c # cs) =
     (case digit_val c of Some d \<Rightarrow> digits_nat (10 * acc + d) cs | None \<Rightarrow> digits_nat acc cs)"

definition split_sign :: "string \<Rightarrow> bool \<times> string" where
  \<comment> \<open>an optional sign: (negative, the rest)\<close>
  "split_sign s =
     (case s of
        [] \<Rightarrow> (False, [])
      | c # cs \<Rightarrow> if c = CHR ''-'' then (True, cs) else if c = CHR ''+'' then (False, cs)
                 else (False, s))"

definition int_of_str :: "string \<Rightarrow> exn + int" where
  \<comment> \<open>\<^verbatim>\<open>int(s)\<close> for a string: blanks around, a sign, one decimal digit group\<close>
  "int_of_str s =
     (let (neg, ds) = split_sign (strip s) in
      if digits_ok ds then Inr (if neg then - int (digits_nat 0 ds) else int (digits_nat 0 ds))
      else Inl ValueError)"

definition mantissa :: "string \<Rightarrow> real option" where
  \<comment> \<open>\<^verbatim>\<open>12.5\<close>, \<^verbatim>\<open>12.\<close>, \<^verbatim>\<open>.5\<close> or \<^verbatim>\<open>12\<close>\<close>
  "mantissa s =
     (let ip = takeWhile (\<lambda>c. c \<noteq> CHR ''.'') s;
          fp = drop (Suc (length ip)) s;
          fdigits = filter is_digit fp
      in if (ip = [] \<and> fp = []) \<or> (ip \<noteq> [] \<and> \<not> digits_ok ip) \<or> (fp \<noteq> [] \<and> \<not> digits_ok fp)
         then None
         else Some (real (digits_nat 0 ip) + real (digits_nat 0 fp) / 10 ^ length fdigits))"

definition is_exp_mark :: "char \<Rightarrow> bool" where
  "is_exp_mark c = (c = CHR ''e'' \<or> c = CHR ''E'')"

definition float_of_str :: "string \<Rightarrow> exn + real" where
  \<comment> \<open>\<^verbatim>\<open>float(s)\<close> for a string: blanks around, a sign, a decimal mantissa and an
      optional exponent. The literals \<^verbatim>\<open>inf\<close> and \<^verbatim>\<open>nan\<close>, which Python reads as
      non-finite floats, are a \<open>ValueError\<close> here: everywhere this program converts a
      string to a float it converts the result on to \<^verbatim>\<open>int\<close> before it stores
      anything, and that conversion raises on a non-finite float.\<close>
  "float_of_str s =
     (let (neg, body) = split_sign (strip s);
          ms = takeWhile (\<lambda>c. \<not> is_exp_mark c) body;
          es = drop (Suc (length ms)) body;
          has_exp = (length ms < length body);
          (eneg, eds) = split_sign es
      in case mantissa ms of
           None \<Rightarrow> Inl ValueError
         | Some m \<Rightarrow>
             if has_exp \<and> \<not> digits_ok eds then Inl ValueError
             else let scaled = (if \<not> has_exp then m
                                else if eneg then m / 10 ^ digits_nat 0 eds
                                else m * 10 ^ digits_nat 0 eds)
                  in Inr (if neg then - scaled else scaled))"

definition trunc :: "real \<Rightarrow> int" where
  \<comment> \<open>\<^verbatim>\<open>int(x)\<close> for a float: rounding towards zero\<close>
  "trunc x = (if 0 \<le> x then \<lfloor>x\<rfloor> else \<lceil>x\<rceil>)"

fun str_nat :: "nat \<Rightarrow> string" where
  "str_nat n =
     (if n < 10 then [''0123456789'' ! n] else str_nat (n div 10) @ [''0123456789'' ! (n mod 10)])"

declare str_nat.simps [simp del]

definition str_int :: "int \<Rightarrow> string" where
  \<comment> \<open>\<^verbatim>\<open>str(i)\<close>, as an f-string formats an \<^verbatim>\<open>int\<close>\<close>
  "str_int i = (if i < 0 then CHR ''-'' # str_nat (nat (- i)) else str_nat (nat i))"

subsection \<open>Sequencing computations that can raise\<close>

definition bind :: "exn + 'a \<Rightarrow> ('a \<Rightarrow> exn + 'b) \<Rightarrow> exn + 'b" where
  "bind m f = (case m of Inl e \<Rightarrow> Inl e | Inr v \<Rightarrow> f v)"

fun for_append :: "('a \<Rightarrow> exn + 'b option) \<Rightarrow> 'a list \<Rightarrow> 'b list \<Rightarrow> 'b list \<times> exn option" where
  \<comment> \<open>\<^verbatim>\<open>for item in items: ... annotations.append(...)\<close>: the body gives the element it
      appends, if any. The list is mutated in place, so when the body raises, what was
      appended before is kept and the exception leaves the loop.\<close>
  "for_append body [] acc = (acc, None)"
| "for_append body (item # items) acc =
     (case body item of
        Inl e \<Rightarrow> (acc, Some e)
      | Inr None \<Rightarrow> for_append body items acc
      | Inr (Some b) \<Rightarrow> for_append body items (acc @ [b]))"

definition list_index :: "'a list \<Rightarrow> int \<Rightarrow> exn + 'a" where
  \<comment> \<open>\<^verbatim>\<open>xs[i]\<close>: the indices \<open>-len(xs) .. -1\<close> count from the end\<close>
  "list_index xs i =
     (if 0 \<le> i \<and> i < int (length xs) then Inr (xs ! nat i)
      else if - int (length xs) \<le> i \<and> i < 0 then Inr (xs ! nat (int (length xs) + i))
      else Inl IndexError)"

subsection \<open>Operations on dynamically typed values\<close>

fun truthy :: "pyval \<Rightarrow> bool" where
  "truthy PNone = False"
| "truthy (PBool b) = b"
| "truthy (PInt i) = (i \<noteq> 0)"
| "truthy (PFloat r) = (r \<noteq> 0)"
| "truthy (PStr s) = (s \<noteq> [])"
| "truthy (PList xs) = (xs \<noteq> [])"
| "truthy (PDict d) = (d \<noteq> [])"

fun py_get :: "pyval \<Rightarrow> string \<Rightarrow> pyval \<Rightarrow> exn + pyval" where
  \<comment> \<open>\<^verbatim>\<open>v.get(key, default)\<close>: only a dict has the method\<close>
  "py_get (PDict d) k dflt = Inr (case map_of d k of Some v \<Rightarrow> v | None \<Rightarrow> dflt)"
| "py_get v k dflt = Inl AttributeError"

fun py_in :: "string \<Rightarrow> pyval \<Rightarrow> exn + bool" where
  \<comment> \<open>\<^verbatim>\<open>key in v\<close> for a string key\<close>
  "py_in k (PDict d) = Inr (k \<in> set (map fst d))"
| "py_in k (PStr s) = Inr (str_contains s k)"
| "py_in k (PList xs) = Inr (PStr k \<in> set xs)"
| "py_in k v = Inl TypeError"

fun py_item :: "pyval \<Rightarrow> string \<Rightarrow> exn + pyval" where
  \<comment> \<open>\<^verbatim>\<open>v[key]\<close> for a string key\<close>
  "py_item (PDict d) k = (case map_of d k of Some v \<Rightarrow> Inr v | None \<Rightarrow> Inl KeyError)"
| "py_item v k = Inl TypeError"

fun py_iter :: "pyval \<Rightarrow> exn + pyval list" where
  \<comment> \<open>what \<^verbatim>\<open>for item in v\<close> runs over: a dict gives its keys, a string its characters\<close>
  "py_iter (PList xs) = Inr xs"
| "py_iter (PDict d) = Inr (map (\<lambda>kv. PStr (fst kv)) d)"
| "py_iter (PStr s) = Inr (map (\<lambda>c. PStr [c]) s)"
| "py_iter v = Inl TypeError"

fun py_int :: "pyval \<Rightarrow> exn + int" where
  \<comment> \<open>\<^verbatim>\<open>int(v)\<close>\<close>
  "py_int (PInt i) = Inr i"
| "py_int (PBool b) = Inr (if b then 1 else 0)"
| "py_int (PFloat r) = Inr (trunc r)"
| "py_int (PStr s) = int_of_str s"
| "py_int v = Inl TypeError"

fun py_add :: "pyval \<Rightarrow> pyval \<Rightarrow> exn + pyval" where
  \<comment> \<open>\<^verbatim>\<open>a + b\<close>: a bool counts as an int, an int and a float add as floats, two strings
      or two lists are concatenated\<close>
  "py_add (PInt a) (PInt b) = Inr (PInt (a + b))"
| "py_add (PInt a) (PBool b) = Inr (PInt (a + (if b then 1 else 0)))"
| "py_add (PBool a) (PInt b) = Inr (PInt ((if a then 1 else 0) + b))"
| "py_add (PBool a) (PBool b) = Inr (PInt ((if a then 1 else 0) + (if b then 1 else 0)))"
| "py_add (PFloat a) (PFloat b) = Inr (PFloat (a + b))"
| "py_add (PFloat a) (PInt b) = Inr (PFloat (a + real_of_int b))"
| "py_add (PInt a) (PFloat b) = Inr (PFloat (real_of_int a + b))"
| "py_add (PFloat a) (PBool b) = Inr (PFloat (a + (if b then 1 else 0)))"
| "py_add (PBool a) (PFloat b) = Inr (PFloat ((if a then 1 else 0) + b))"
| "py_add (PStr a) (PStr b) = Inr (PStr (a @ b))"
| "py_add (PList a) (PList b) = Inr (PList (a @ b))"
| "py_add a b = Inl TypeError"

section \<open>Files and the libraries that read them\<close>

text \<open>
  An element as \<^verbatim>\<open>xml.etree.ElementTree\<close> gives it: its tag, its text (\<^verbatim>\<open>None\<close> for
  an empty element) and its children.
\<close>

datatype xml = Element (tag: string) (etext: "string option") (children: "xml list")

definition et_find :: "xml \<Rightarrow> string \<Rightarrow> xml option" where
  \<comment> \<open>\<^verbatim>\<open>elem.find(name)\<close>: the first child with that tag\<close>
  "et_find e name = List.find (\<lambda>c. tag c = name) (children e)"

definition et_findall :: "xml \<Rightarrow> string \<Rightarrow> xml list" where
  \<comment> \<open>\<^verbatim>\<open>elem.findall(name)\<close>: the children with that tag, in document order\<close>
  "et_findall e name = filter (\<lambda>c. tag c = name) (children e)"

text \<open>
  A file is what each library makes of it: \<open>json_load\<close> is the value of
  \<^verbatim>\<open>json.load\<close> (\<open>None\<close>: \<^verbatim>\<open>JSONDecodeError\<close>), \<open>et_parse\<close> the root of
  \<^verbatim>\<open>ET.parse\<close> (\<open>None\<close>: \<^verbatim>\<open>ParseError\<close>), \<open>readlines\<close> its lines as text and
  \<open>image_open\<close> the size of the picture \<^verbatim>\<open>Image.open\<close> decodes (\<open>None\<close>: PIL
  raises an \<^verbatim>\<open>OSError\<close>). A file system maps a path to the file there, if any.
\<close>

record disk_file =
  json_load :: "pyval option"
  et_parse :: "xml option"
  readlines :: "string list"
  image_open :: "(int \<times> int) option"

type_synonym filesystem = "string \<Rightarrow> disk_file option"

definition rfind :: "string \<Rightarrow> char \<Rightarrow> int" where
  \<comment> \<open>\<^verbatim>\<open>p.rfind(c)\<close>: the last index of \<open>c\<close>, or \<open>-1\<close>\<close>
  "rfind p c =
     (if c \<in> set p then int (length p) - 1 - int (length (takeWhile (\<lambda>d. d \<noteq> c) (rev p)))
      else - 1)"

definition splitext_ext :: "string \<Rightarrow> string" where
  \<comment> \<open>\<^verbatim>\<open>os.path.splitext(p)[1]\<close> as \<^verbatim>\<open>posixpath\<close> computes it: from the last dot on,
      when that dot stands after the last \<^verbatim>\<open>/\<close> and a character other than a dot
      stands between the two; otherwise the empty string\<close>
  "splitext_ext p =
     (let sepIndex = rfind p (CHR ''/'');
          dotIndex = rfind p (CHR ''.'');
          filenameIndex = sepIndex + 1
      in if dotIndex > sepIndex \<and>
            list_ex (\<lambda>c. c \<noteq> CHR ''.'')
              (take (nat (dotIndex - filenameIndex)) (drop (nat filenameIndex) p))
         then drop (nat dotIndex) p
         else [])"

section \<open>The annotation parser\<close>

text \<open>
  A bounding box is the dict \<^verbatim>\<open>{'label', 'x_min', 'y_min', 'x_max', 'y_max'}\<close> that
  \<^verbatim>\<open>parse_annotations\<close> appends. The four coordinates are always the result of
  \<^verbatim>\<open>int(...)\<close>; the label is whatever the annotation file held.
\<close>

record box =
  label :: pyval
  x_min :: int
  y_min :: int
  x_max :: int
  y_max :: int

text \<open>The lines the program prints, by the statement that prints them.\<close>

datatype log_msg =
    Warn_json_structure string
  | Warn_no_class_names string
  | Unsupported_format string string
  | Annotation_not_found string
  | Error_parsing string exn
  | Unexpected_error string exn
  | Error_loading_classes string
  | Image_not_found
  | Unexpected_drawing_error exn

definition load_yolo_classes :: "filesystem \<Rightarrow> string option \<Rightarrow> string list" where
  \<comment> \<open>the stripped non-blank lines of the classes file; empty when no path is given or
      no file is there\<close>
  "load_yolo_classes fs classes_file_path =
     (case classes_file_path of
        None \<Rightarrow> []
      | Some p \<Rightarrow>
          if p = [] then []
          else (case fs p of
                  None \<Rightarrow> []
                | Some f \<Rightarrow> filter (\<lambda>l. l \<noteq> []) (map strip (readlines f))))"

definition json_entry :: "pyval \<Rightarrow> exn + box option" where
  \<comment> \<open>the body of the loop over \<^verbatim>\<open>annotations_data[0]['annotations']\<close>\<close>
  "json_entry anno =
     bind (py_get anno ''label'' (PStr ''No Label'')) (\<lambda>lbl.
     bind (py_get anno ''coordinates'' PNone) (\<lambda>coords.
       if truthy coords then
         bind (py_get coords ''x'' PNone) (\<lambda>x.
         bind (py_get coords ''y'' PNone) (\<lambda>y.
         bind (py_get coords ''width'' PNone) (\<lambda>width.
         bind (py_get coords ''height'' PNone) (\<lambda>height.
           if list_all (\<lambda>v. v \<noteq> PNone) [x, y, width, height] then
             bind (py_int x) (\<lambda>xmin.
             bind (py_int y) (\<lambda>ymin.
             bind (bind (py_add x width) py_int) (\<lambda>xmax.
             bind (bind (py_add y height) py_int) (\<lambda>ymax.
               Inr (Some \<lparr>label = lbl, x_min = xmin, y_min = ymin,
                           x_max = xmax, y_max = ymax\<rparr>)))))
           else Inr None))))
       else Inr None))"

definition json_branch :: "string \<Rightarrow> pyval \<Rightarrow> box list \<times> log_msg list \<times> exn option" where
  \<comment> \<open>what follows \<^verbatim>\<open>json.load\<close>: the test of the top-level shape, then the loop\<close>
  "json_branch annotation_path annotations_data =
     (let warn = ([], [Warn_json_structure annotation_path], None) in
      if \<not> truthy annotations_data then warn
      else (case annotations_data of
              PList items \<Rightarrow>
                (case py_in ''annotations'' (hd items) of
                   Inl e \<Rightarrow> ([], [], Some e)
                 | Inr False \<Rightarrow> warn
                 | Inr True \<Rightarrow>
                     (case bind (py_item (hd items) ''annotations'') py_iter of
                        Inl e \<Rightarrow> ([], [], Some e)
                      | Inr annos \<Rightarrow>
                          (let (boxes, e) = for_append json_entry annos [] in (boxes, [], e))))
            | _ \<Rightarrow> warn))"

definition bndbox_int :: "xml \<Rightarrow> string \<Rightarrow> exn + int" where
  \<comment> \<open>\<^verbatim>\<open>int(float(bndbox.find(name).text))\<close>\<close>
  "bndbox_int bndbox name =
     (case et_find bndbox name of
        None \<Rightarrow> Inl AttributeError
      | Some c \<Rightarrow>
          (case etext c of
             None \<Rightarrow> Inl TypeError
           | Some s \<Rightarrow> bind (float_of_str s) (\<lambda>v. Inr (trunc v))))"

definition xml_object :: "xml \<Rightarrow> exn + box option" where
  \<comment> \<open>the body of the loop over \<^verbatim>\<open>root.findall('object')\<close>\<close>
  "xml_object obj =
     (let lbl = (case et_find obj ''name'' of
                   Some n \<Rightarrow> (case etext n of Some s \<Rightarrow> PStr s | None \<Rightarrow> PNone)
                 | None \<Rightarrow> PStr ''No Label'')
      in case et_find obj ''bndbox'' of
           None \<Rightarrow> Inr None
         | Some bndbox \<Rightarrow>
             bind (bndbox_int bndbox ''xmin'') (\<lambda>xmin.
             bind (bndbox_int bndbox ''ymin'') (\<lambda>ymin.
             bind (bndbox_int bndbox ''xmax'') (\<lambda>xmax.
             bind (bndbox_int bndbox ''ymax'') (\<lambda>ymax.
               Inr (Some \<lparr>label = lbl, x_min = xmin, y_min = ymin,
                           x_max = xmax, y_max = ymax\<rparr>))))))"

definition yolo_label :: "string list option \<Rightarrow> int \<Rightarrow> exn + pyval" where
  \<comment> \<open>\<^verbatim>\<open>class_names[class_id] if class_names and class_id < len(class_names)
      else f"Class {class_id}"\<close>\<close>
  "yolo_label class_names class_id =
     (case class_names of
        None \<Rightarrow> Inr (PStr (''Class '' @ str_int class_id))
      | Some names \<Rightarrow>
          if names \<noteq> [] \<and> class_id < int (length names)
          then bind (list_index names class_id) (\<lambda>n. Inr (PStr n))
          else Inr (PStr (''Class '' @ str_int class_id)))"

definition yolo_line :: "int \<Rightarrow> int \<Rightarrow> string list option \<Rightarrow> string \<Rightarrow> exn + box option" where
  \<comment> \<open>the body of the loop over the lines of a YOLO file\<close>
  "yolo_line image_width image_height class_names line =
     (let parts = split (strip line) in
      if length parts = 5 then
        bind (int_of_str (parts ! 0)) (\<lambda>class_id.
        bind (float_of_str (parts ! 1)) (\<lambda>x_center_norm.
        bind (float_of_str (parts ! 2)) (\<lambda>y_center_norm.
        bind (float_of_str (parts ! 3)) (\<lambda>width_norm.
        bind (float_of_str (parts ! 4)) (\<lambda>height_norm.
          let x_center = x_center_norm * real_of_int image_width;
              y_center = y_center_norm * real_of_int image_height;
              bbox_width = width_norm * real_of_int image_width;
              bbox_height = height_norm * real_of_int image_height;
              xmin = trunc (x_center - bbox_width / 2);
              ymin = trunc (y_center - bbox_height / 2);
              xmax = trunc (x_center + bbox_width / 2);
              ymax = trunc (y_center + bbox_height / 2)
          in bind (yolo_label class_names class_id) (\<lambda>lbl.
               Inr (Some \<lparr>label = lbl, x_min = xmin, y_min = ymin,
                           x_max = xmax, y_max = ymax\<rparr>)))))))
      else Inr None)"

definition class_names_given :: "string list option \<Rightarrow> bool" where
  \<comment> \<open>the truth value of \<^verbatim>\<open>class_names\<close>: neither \<^verbatim>\<open>None\<close> nor an empty list\<close>
  "class_names_given class_names = (case class_names of None \<Rightarrow> False | Some names \<Rightarrow> names \<noteq> [])"

definition file_extension :: "string \<Rightarrow> string" where
  "file_extension annotation_path = lower (splitext_ext annotation_path)"

definition parse_json_file :: "filesystem \<Rightarrow> string \<Rightarrow> box list \<times> log_msg list \<times> exn option" where
  \<comment> \<open>the \<^verbatim>\<open>.json\<close> branch: \<^verbatim>\<open>open\<close>, \<^verbatim>\<open>json.load\<close>, then the custom-JSON reader\<close>
  "parse_json_file fs annotation_path =
     (case fs annotation_path of
        None \<Rightarrow> ([], [], Some FileNotFoundError)
      | Some f \<Rightarrow>
          (case json_load f of
             None \<Rightarrow> ([], [], Some JSONDecodeError)
           | Some annotations_data \<Rightarrow> json_branch annotation_path annotations_data))"

definition parse_xml_file :: "filesystem \<Rightarrow> string \<Rightarrow> box list \<times> log_msg list \<times> exn option" where
  \<comment> \<open>the \<^verbatim>\<open>.xml\<close> branch: \<^verbatim>\<open>ET.parse\<close>, then the loop over the \<^verbatim>\<open>object\<close> elements\<close>
  "parse_xml_file fs annotation_path =
     (case fs annotation_path of
        None \<Rightarrow> ([], [], Some FileNotFoundError)
      | Some f \<Rightarrow>
          (case et_parse f of
             None \<Rightarrow> ([], [], Some ParseError)
           | Some tree_root \<Rightarrow>
               (let (boxes, e) = for_append xml_object (et_findall tree_root ''object'') []
                in (boxes, [], e))))"

definition parse_txt_file :: "filesystem \<Rightarrow> string \<Rightarrow> int \<Rightarrow> int \<Rightarrow> string list option
    \<Rightarrow> box list \<times> log_msg list \<times> exn option" where
  \<comment> \<open>the \<^verbatim>\<open>.txt\<close> branch: the warning about missing class names, \<^verbatim>\<open>open\<close>, then the
      loop over the lines\<close>
  "parse_txt_file fs annotation_path image_width image_height class_names =
     (let warned = (if class_names_given class_names then []
                    else [Warn_no_class_names annotation_path])
      in case fs annotation_path of
           None \<Rightarrow> ([], warned, Some FileNotFoundError)
         | Some f \<Rightarrow>
             (let (boxes, e) =
                    for_append (yolo_line image_width image_height class_names)
                      (readlines f) []
              in (boxes, warned, e)))"

definition parse_try :: "filesystem \<Rightarrow> string \<Rightarrow> int \<Rightarrow> int \<Rightarrow> string list option
    \<Rightarrow> box list \<times> log_msg list \<times> exn option" where
  \<comment> \<open>the \<^verbatim>\<open>try\<close> block of \<^verbatim>\<open>parse_annotations\<close>: the annotations appended, the lines
      printed and the exception that ended the block, if one did\<close>
  "parse_try fs annotation_path image_width image_height class_names =
     (if file_extension annotation_path = ''.json'' then
        parse_json_file fs annotation_path
      else if file_extension annotation_path = ''.xml'' then
        parse_xml_file fs annotation_path
      else if file_extension annotation_path = ''.txt'' then
        parse_txt_file fs annotation_path image_width image_height class_names
      else ([], [Unsupported_format (file_extension annotation_path) annotation_path], None))"

definition is_Exception :: "exn \<Rightarrow> bool" where
  \<comment> \<open>\<^verbatim>\<open>isinstance(e, Exception)\<close>: every exception class of \<open>exn\<close> derives from
      \<^verbatim>\<open>Exception\<close>\<close>
  "is_Exception e =
     (e \<in> set [FileNotFoundError, JSONDecodeError, ParseError, ValueError, TypeError,
               AttributeError, IndexError, KeyError, ZeroDivisionError, OSError])"

definition parse_annotations :: "filesystem \<Rightarrow> string \<Rightarrow> int \<Rightarrow> int \<Rightarrow> string list option
    \<Rightarrow> exn + box list \<times> log_msg list" where
  \<comment> \<open>the \<^verbatim>\<open>try\<close> block, its three \<^verbatim>\<open>except\<close> clauses in their order, and
      \<^verbatim>\<open>return annotations\<close>. \<open>Inl\<close> would be an exception that no clause catches.\<close>
  "parse_annotations fs annotation_path image_width image_height class_names =
     (case parse_try fs annotation_path image_width image_height class_names of
        (annotations, printed, None) \<Rightarrow> Inr (annotations, printed)
      | (annotations, printed, Some e) \<Rightarrow>
          if e = FileNotFoundError
            then Inr (annotations, printed @ [Annotation_not_found annotation_path])
          else if e \<in> set [JSONDecodeError, ParseError, ValueError]
            then Inr (annotations, printed @ [Error_parsing annotation_path e])
          else if is_Exception e
            then Inr (annotations, printed @ [Unexpected_error annotation_path e])
          else Inl e)"

section \<open>Pictures and the box renderer\<close>

text \<open>
  A PIL image is the file it was decoded from, its size, and the drawing calls made on it
  since, in order. \<^verbatim>\<open>ImageDraw\<close> is taken to accept every call the program makes.
\<close>

datatype draw_op =
    Rectangle int int int int string int
  | Text int int string string
  | Line "real list" pyval pyval

record pil_image =
  opened_from :: string
  img_size :: "int \<times> int"
  painted :: "draw_op list"

definition draw_box :: "box \<Rightarrow> exn + draw_op list" where
  \<comment> \<open>the body of the loop of \<^verbatim>\<open>draw_bounding_boxes\<close>: \<^verbatim>\<open>draw.rectangle\<close> with the
      outline colour and width 3, then \<^verbatim>\<open>draw.text\<close>. The four coordinates of a
      \<open>box\<close> are never \<^verbatim>\<open>None\<close>. \<^verbatim>\<open>label.lower()\<close> exists for a string only.\<close>
  "draw_box annotation =
     (case label annotation of
        PStr s \<Rightarrow>
          (let box_color = (if str_contains (lower s) ''silver marking'' then ''yellow''
                            else if str_contains (lower s) ''balancing weight'' then ''cyan''
                            else ''red'');
               text_y = (if y_min annotation - 20 > 0 then y_min annotation - 20
                         else y_min annotation + 5)
           in Inr [Rectangle (x_min annotation) (y_min annotation) (x_max annotation)
                     (y_max annotation) box_color 3,
                   Text (x_min annotation) text_y s box_color])
      | _ \<Rightarrow> Inl AttributeError)"

fun draw_boxes :: "box list \<Rightarrow> exn + draw_op list" where
  "draw_boxes [] = Inr []"
| "draw_boxes (annotation # rest) =
     bind (draw_box annotation) (\<lambda>ops. bind (draw_boxes rest) (\<lambda>more. Inr (ops @ more)))"

definition draw_bounding_boxes :: "filesystem \<Rightarrow> string \<Rightarrow> box list
    \<Rightarrow> pil_image option \<times> log_msg list" where
  \<comment> \<open>with \<^verbatim>\<open>draw_on_copy=True\<close>, as every caller has it: the returned picture is a
      fresh copy with the boxes drawn on it, or \<^verbatim>\<open>None\<close> after an exception\<close>
  "draw_bounding_boxes fs image_path annotations =
     (case fs image_path of
        None \<Rightarrow> (None, [Image_not_found])
      | Some f \<Rightarrow>
          (case image_open f of
             None \<Rightarrow> (None, [Unexpected_drawing_error OSError])
           | Some sz \<Rightarrow>
               (case draw_boxes annotations of
                  Inl e \<Rightarrow> (None, [Unexpected_drawing_error e])
                | Inr ops \<Rightarrow>
                    (Some \<lparr>opened_from = image_path, img_size = sz, painted = ops\<rparr>, []))))"

section \<open>The application state and its handlers\<close>

text \<open>
  The attributes of \<^verbatim>\<open>BoundingBoxViewerApp\<close> that the handlers below read or write. A
  freehand stroke is the tuple \<^verbatim>\<open>(coords, dtype, options)\<close>: a flat list
  \<^verbatim>\<open>[x0, y0, x1, y1, ...]\<close> in image pixels, the kind (always \<^verbatim>\<open>"line"\<close>) and a
  dict of drawing options.
\<close>

type_synonym drawing = "real list \<times> string \<times> (string \<times> pyval) list"

record app =
  original_image_pil :: "pil_image option"
  zoom_level :: real
  image_x_offset :: real
  image_y_offset :: real
  drawings_on_canvas :: "drawing list"
  drawing_active :: bool
  current_drawing_coords_unscaled :: "real list"

definition init_app :: app where
  \<comment> \<open>the attributes after \<^verbatim>\<open>__init__\<close>\<close>
  "init_app = \<lparr>original_image_pil = None, zoom_level = 1, image_x_offset = 0,
               image_y_offset = 0, drawings_on_canvas = [], drawing_active = False,
               current_drawing_coords_unscaled = []\<rparr>"

text \<open>
  What a handler reads from the Tk canvas: its size in screen pixels and the part of the
  scrolled canvas that the window shows (\<^verbatim>\<open>canvasx(x)\<close> is the canvas coordinate shown
  at window coordinate \<open>x\<close>). Tk's own calls are taken to return normally; what they put
  on the screen is not part of the state.
\<close>

record canvas =
  winfo_width :: int
  winfo_height :: int
  view_left :: real
  view_top :: real

definition canvasx :: "canvas \<Rightarrow> int \<Rightarrow> real" where
  "canvasx cv sx = real_of_int sx + view_left cv"

definition canvasy :: "canvas \<Rightarrow> int \<Rightarrow> real" where
  "canvasy cv sy = real_of_int sy + view_top cv"

text \<open>A pointer or wheel event: \<^verbatim>\<open>event.x\<close>, \<^verbatim>\<open>event.y\<close>, \<^verbatim>\<open>event.delta\<close> and
  \<^verbatim>\<open>event.num\<close> (a button number, or none for a wheel event).\<close>

record event =
  ev_x :: int
  ev_y :: int
  delta :: int
  num :: "int option"

definition offset_coords :: "app \<Rightarrow> real list \<Rightarrow> real list" where
  \<comment> \<open>the image-to-canvas transform of \<^verbatim>\<open>redraw_canvas\<close> and \<^verbatim>\<open>do_draw\<close>:
      \<^verbatim>\<open>scaled_coords = [c * zoom_level for c in coords]\<close>, then the x offset added at
      the even indices and the y offset at the odd ones\<close>
  "offset_coords st coords =
     (let scaled_coords = map (\<lambda>c. c * zoom_level st) coords
      in map (\<lambda>i. scaled_coords ! i + (if i mod 2 = 0 then image_x_offset st
                                           else image_y_offset st))
           [0..<length scaled_coords])"

definition redraw_canvas :: "canvas \<Rightarrow> app \<Rightarrow> app" where
  \<comment> \<open>the attributes \<^verbatim>\<open>redraw_canvas\<close> writes: the offsets that centre the scaled
      picture on an axis where it is smaller than the canvas\<close>
  "redraw_canvas cv st =
     (case original_image_pil st of
        None \<Rightarrow> st
      | Some img \<Rightarrow>
          (let disp_w = trunc (real_of_int (fst (img_size img)) * zoom_level st);
               disp_h = trunc (real_of_int (snd (img_size img)) * zoom_level st)
           in st\<lparr>image_x_offset := max 0 (real_of_int (winfo_width cv - disp_w) / 2),
                  image_y_offset := max 0 (real_of_int (winfo_height cv - disp_h) / 2)\<rparr>))"

definition redraw_lines :: "canvas \<Rightarrow> app \<Rightarrow> real list list" where
  \<comment> \<open>the coordinate lists \<^verbatim>\<open>redraw_canvas\<close> hands to \<^verbatim>\<open>create_line\<close>, one per stroke\<close>
  "redraw_lines cv st =
     (let st' = redraw_canvas cv st
      in map (\<lambda>d. offset_coords st' (fst d))
           (filter (\<lambda>d. fst (snd d) = ''line'') (drawings_on_canvas st')))"

definition fit_image_to_canvas :: "canvas \<Rightarrow> app \<Rightarrow> app" where
  "fit_image_to_canvas cv st =
     (case original_image_pil st of
        None \<Rightarrow> st
      | Some img \<Rightarrow>
          (let canvas_w = winfo_width cv; canvas_h = winfo_height cv;
               img_w = fst (img_size img); img_h = snd (img_size img)
           in if canvas_w \<le> 1 \<or> canvas_h \<le> 1 \<or> img_w \<le> 0 \<or> img_h \<le> 0 then st
              else redraw_canvas cv
                     (st\<lparr>zoom_level := min (real_of_int canvas_w / real_of_int img_w)
                                            (real_of_int canvas_h / real_of_int img_h)\<rparr>)))"

definition display_image_on_canvas :: "canvas \<Rightarrow> app \<Rightarrow> pil_image option \<Rightarrow> app" where
  "display_image_on_canvas cv st pil_image =
     (case pil_image of
        None \<Rightarrow> st
      | Some img \<Rightarrow> fit_image_to_canvas cv (st\<lparr>original_image_pil := Some img\<rparr>))"

definition is_zoom_in :: "event \<Rightarrow> bool" where
  \<comment> \<open>\<^verbatim>\<open>event.delta > 0 or event.num == 4\<close>: the wheel turned up, or button 4 on X11\<close>
  "is_zoom_in ev = (delta ev > 0 \<or> num ev = Some 4)"

definition zoom_factor :: "event \<Rightarrow> real" where
  \<comment> \<open>\<^verbatim>\<open>1.1 if (event.delta > 0 or event.num == 4) else 1/1.1\<close>\<close>
  "zoom_factor ev = (if is_zoom_in ev then 11 / 10 else 1 / (11 / 10))"

definition on_mouse_wheel_zoom :: "canvas \<Rightarrow> app \<Rightarrow> event \<Rightarrow> app" where
  "on_mouse_wheel_zoom cv st ev =
     (case original_image_pil st of
        None \<Rightarrow> st
      | Some img \<Rightarrow> redraw_canvas cv (st\<lparr>zoom_level := zoom_level st * zoom_factor ev\<rparr>))"

definition canvas_to_image_coords :: "canvas \<Rightarrow> app \<Rightarrow> int \<Rightarrow> int \<Rightarrow> exn + real \<times> real" where
  \<comment> \<open>\<^verbatim>\<open>_canvas_to_image_coords\<close>; the division raises when the zoom level is zero\<close>
  "canvas_to_image_coords cv st canvas_x canvas_y =
     (if zoom_level st = 0 then Inl ZeroDivisionError
      else Inr ((canvasx cv canvas_x - image_x_offset st) / zoom_level st,
                (canvasy cv canvas_y - image_y_offset st) / zoom_level st))"

definition start_draw :: "canvas \<Rightarrow> app \<Rightarrow> event \<Rightarrow> exn + app" where
  "start_draw cv st ev =
     (case original_image_pil st of
        None \<Rightarrow> Inr st
      | Some img \<Rightarrow>
          bind (canvas_to_image_coords cv st (ev_x ev) (ev_y ev)) (\<lambda>p.
            Inr (st\<lparr>drawing_active := True,
                    current_drawing_coords_unscaled := [fst p, snd p]\<rparr>)))"

definition do_draw :: "canvas \<Rightarrow> app \<Rightarrow> event \<Rightarrow> exn + app" where
  "do_draw cv st ev =
     (if \<not> drawing_active st then Inr st
      else bind (canvas_to_image_coords cv st (ev_x ev) (ev_y ev)) (\<lambda>p.
             Inr (redraw_canvas cv
                    (st\<lparr>current_drawing_coords_unscaled :=
                          current_drawing_coords_unscaled st @ [fst p, snd p]\<rparr>))))"

definition end_draw :: "canvas \<Rightarrow> app \<Rightarrow> event \<Rightarrow> app" where
  "end_draw cv st ev =
     (if \<not> drawing_active st then st
      else redraw_canvas cv
             (st\<lparr>drawings_on_canvas := drawings_on_canvas st @
                    [(current_drawing_coords_unscaled st, ''line'',
                      [(''fill'', PStr ''blue''), (''width'', PInt 2)])],
                  drawing_active := False\<rparr>))"

fun near_any :: "real list \<Rightarrow> real \<Rightarrow> real \<Rightarrow> real \<Rightarrow> exn + bool" where
  \<comment> \<open>\<^verbatim>\<open>any(abs(c[i] - erase_x) < tolerance and abs(c[i+1] - erase_y) < tolerance
      for i in range(0, len(c), 2))\<close>: it stops at the first pair that is near, and
      \<^verbatim>\<open>c[i+1]\<close> is read only when the x test holds\<close>
  "near_any [] erase_x erase_y tolerance = Inr False"
| "near_any [x] erase_x erase_y tolerance =
     (if \<bar>x - erase_x\<bar> < tolerance then Inl IndexError else Inr False)"
| "near_any (x # y # rest) erase_x erase_y tolerance =
     (if \<bar>x - erase_x\<bar> < tolerance \<and> \<bar>y - erase_y\<bar> < tolerance then Inr True
      else near_any rest erase_x erase_y tolerance)"

fun erase_near :: "real \<Rightarrow> real \<Rightarrow> real \<Rightarrow> drawing list \<Rightarrow> exn + drawing list" where
  \<comment> \<open>the list comprehension of \<^verbatim>\<open>do_erase\<close>: the drawings with no point near\<close>
  "erase_near erase_x erase_y tolerance [] = Inr []"
| "erase_near erase_x erase_y tolerance (d # ds) =
     bind (near_any (fst d) erase_x erase_y tolerance) (\<lambda>hit.
     bind (erase_near erase_x erase_y tolerance ds) (\<lambda>kept.
       Inr (if hit then kept else d # kept)))"

definition do_erase :: "canvas \<Rightarrow> app \<Rightarrow> event \<Rightarrow> exn + app" where
  \<comment> \<open>an exception leaves the handler before the attribute is assigned\<close>
  "do_erase cv st ev =
     (case original_image_pil st of
        None \<Rightarrow> Inr st
      | Some img \<Rightarrow>
          bind (canvas_to_image_coords cv st (ev_x ev) (ev_y ev)) (\<lambda>p.
            let tolerance = 5 / zoom_level st
            in bind (erase_near (fst p) (snd p) tolerance (drawings_on_canvas st)) (\<lambda>kept.
                 let st' = st\<lparr>drawings_on_canvas := kept\<rparr>
                 in Inr (if length kept < length (drawings_on_canvas st)
                         then redraw_canvas cv st' else st'))))"

definition process_single_image :: "filesystem \<Rightarrow> canvas \<Rightarrow> app \<Rightarrow> string \<Rightarrow> string \<Rightarrow> string
    \<Rightarrow> app" where
  \<comment> \<open>the three paths are the contents of the entry fields; every failure ends in a
      message box and leaves the attributes alone\<close>
  "process_single_image fs cv st image_p label_p classes_p =
     (if image_p = [] \<or> fs image_p = None \<or> label_p = [] \<or> fs label_p = None then st
      else (case fs image_p of
              None \<Rightarrow> st
            | Some f \<Rightarrow>
                (case image_open f of
                   None \<Rightarrow> st
                 | Some sz \<Rightarrow>
                     (let class_names = (if classes_p \<noteq> []
                                         then Some (load_yolo_classes fs (Some classes_p))
                                         else None)
                      in case parse_annotations fs label_p (fst sz) (snd sz) class_names of
                           Inl e \<Rightarrow> st
                         | Inr (annotations, printed) \<Rightarrow>
                             (case fst (draw_bounding_boxes fs image_p annotations) of
                                None \<Rightarrow> st
                              | Some annotated_image_pil \<Rightarrow>
                                  display_image_on_canvas cv
                                    (st\<lparr>drawings_on_canvas := []\<rparr>)
                                    (Some annotated_image_pil))))))"

definition stroke_ops :: "drawing \<Rightarrow> draw_op list" where
  \<comment> \<open>\<^verbatim>\<open>draw.line(coords, fill=options.get("fill", "blue"),
      width=options.get("width", 2))\<close> for a stroke of kind \<^verbatim>\<open>"line"\<close>\<close>
  "stroke_ops d =
     (case d of (coords, dtype, options) \<Rightarrow>
        if dtype = ''line''
        then [Line coords
                (case map_of options ''fill'' of Some v \<Rightarrow> v | None \<Rightarrow> PStr ''blue'')
                (case map_of options ''width'' of Some v \<Rightarrow> v | None \<Rightarrow> PInt 2)]
        else [])"

definition save_current_image :: "app \<Rightarrow> string \<Rightarrow> (string \<times> pil_image) option" where
  \<comment> \<open>the path and the picture handed to \<^verbatim>\<open>image_to_save.save\<close>; \<open>None\<close> when the
      method returns before that (no picture loaded, or the dialog was cancelled and
      gave the empty path)\<close>
  "save_current_image st file_path =
     (case original_image_pil st of
        None \<Rightarrow> None
      | Some img \<Rightarrow>
          if file_path = [] then None
          else Some (file_path,
                     img\<lparr>painted := painted img @ concat (map stroke_ops (drawings_on_canvas st))\<rparr>))"

section \<open>Notions used to state the properties\<close>

definition integer_entry :: "pyval \<Rightarrow> (pyval \<times> int \<times> int \<times> int \<times> int) option" where
  \<comment> \<open>the label and the fields \<^verbatim>\<open>x\<close>, \<^verbatim>\<open>y\<close>, \<^verbatim>\<open>width\<close>, \<^verbatim>\<open>height\<close> of a custom-JSON
      entry that has all four, each an integer\<close>
  "integer_entry anno =
     (case anno of
        PDict a \<Rightarrow>
          (case map_of a ''coordinates'' of
             Some (PDict c) \<Rightarrow>
               (case (map_of c ''x'', map_of c ''y'', map_of c ''width'', map_of c ''height'') of
                  (Some (PInt x), Some (PInt y), Some (PInt width), Some (PInt height)) \<Rightarrow>
                    Some (case map_of a ''label'' of Some l \<Rightarrow> l | None \<Rightarrow> PStr ''No Label'',
                          x, y, width, height)
                | _ \<Rightarrow> None)
           | _ \<Rightarrow> None)
      | _ \<Rightarrow> None)"

definition lacks_coordinate :: "(string \<times> pyval) list \<Rightarrow> bool" where
  \<comment> \<open>a \<^verbatim>\<open>coordinates\<close> dict in which one of the four fields is missing\<close>
  "lacks_coordinate c =
     (map_of c ''x'' = None \<or> map_of c ''y'' = None
      \<or> map_of c ''width'' = None \<or> map_of c ''height'' = None)"

definition zoom_gestures :: "(canvas \<times> event) list \<Rightarrow> app \<Rightarrow> app" where
  \<comment> \<open>wheel events handled one after the other, each with the canvas as it is at
      that moment\<close>
  "zoom_gestures gs st = fold (\<lambda>g s. on_mouse_wheel_zoom (fst g) s (snd g)) gs st"

fun points :: "real list \<Rightarrow> (real \<times> real) list" where
  \<comment> \<open>the points \<open>(x0, y0), (x1, y1), ...\<close> of a flat coordinate list\<close>
  "points (x # y # rest) = (x, y) # points rest"
| "points cs = []"

definition near :: "real \<Rightarrow> real \<Rightarrow> real \<Rightarrow> real \<times> real \<Rightarrow> bool" where
  \<comment> \<open>the proximity test of \<^verbatim>\<open>do_erase\<close>: both axis distances below the tolerance\<close>
  "near erase_x erase_y tolerance p =
     (\<bar>fst p - erase_x\<bar> < tolerance \<and> \<bar>snd p - erase_y\<bar> < tolerance)"

definition touched :: "real \<Rightarrow> real \<Rightarrow> real \<Rightarrow> drawing \<Rightarrow> bool" where
  \<comment> \<open>a stroke with at least one point near the erase position\<close>
  "touched erase_x erase_y tolerance d = list_ex (near erase_x erase_y tolerance) (points (fst d))"

definition paired :: "drawing list \<Rightarrow> bool" where
  \<comment> \<open>every stroke holds whole points: an even number of coordinates\<close>
  "paired ds = list_all (\<lambda>d. even (length (fst d))) ds"

definition well_formed :: "app \<Rightarrow> bool" where
  \<comment> \<open>the strokes and the stroke being drawn hold whole points\<close>
  "well_formed st =
     (paired (drawings_on_canvas st) \<and> even (length (current_drawing_coords_unscaled st)))"

section \<open>Concrete inputs\<close>

text \<open>Files and states on which the theorems below are evaluated.\<close>

definition no_file :: disk_file where
  \<comment> \<open>a file that none of the libraries can read and that has no lines\<close>
  "no_file = \<lparr>json_load = None, et_parse = None, readlines = [], image_open = None\<rparr>"

definition example1_json :: pyval where
  \<comment> \<open>\<^verbatim>\<open>[{"annotations":[{"label":"Weight","coordinates":{"x":10,"y":20,"width":30,"height":40}}]}]\<close>\<close>
  "example1_json =
     PList [PDict [(''annotations'',
       PList [PDict [(''label'', PStr ''Weight''),
                     (''coordinates'', PDict [(''x'', PInt 10), (''y'', PInt 20),
                                              (''width'', PInt 30), (''height'', PInt 40)])]])]]"

definition example_fs :: filesystem where
  \<comment> \<open>a 100 x 100 picture, the JSON of Example 1, a YOLO file with the line of Example 2
      (each also under a name in capitals), and files that no library can decode\<close>
  "example_fs p =
     (if p = ''part.png'' then Some (no_file\<lparr>image_open := Some (100, 100)\<rparr>)
      else if p = ''part.json'' then Some (no_file\<lparr>json_load := Some example1_json\<rparr>)
      else if p = ''part.txt'' then Some (no_file\<lparr>readlines := [''0 0.5 0.5 0.2 0.2'']\<rparr>)
      else if p = ''PART.JSON'' then Some (no_file\<lparr>json_load := Some example1_json\<rparr>)
      else if p = ''Part.Txt'' then Some (no_file\<lparr>readlines := [''0 0.5 0.5 0.2 0.2'']\<rparr>)
      else if p = ''broken.json'' then Some no_file
      else if p = ''broken.xml'' then Some no_file
      else if p = ''broken.XML'' then Some no_file
      else None)"

definition half_pixel_json :: pyval where
  \<comment> \<open>Example 1 with \<^verbatim>\<open>"x": 0.5\<close> and \<^verbatim>\<open>"width": 0.5\<close>\<close>
  "half_pixel_json =
     PList [PDict [(''annotations'',
       PList [PDict [(''label'', PStr ''Weight''),
                     (''coordinates'', PDict [(''x'', PFloat (1 / 2)), (''y'', PInt 20),
                                              (''width'', PFloat (1 / 2)), (''height'', PInt 40)])]])]]"

definition no_height_json :: pyval where
  \<comment> \<open>Example 1 without the field \<^verbatim>\<open>height\<close>\<close>
  "no_height_json =
     PList [PDict [(''annotations'',
       PList [PDict [(''label'', PStr ''Weight''),
                     (''coordinates'', PDict [(''x'', PInt 10), (''y'', PInt 20),
                                              (''width'', PInt 30)])]])]]"

definition odd_fs :: filesystem where
  \<comment> \<open>annotation files with a fractional coordinate, a missing field and negative
      class ids\<close>
  "odd_fs p =
     (if p = ''half.json'' then Some (no_file\<lparr>json_load := Some half_pixel_json\<rparr>)
      else if p = ''noheight.json'' then Some (no_file\<lparr>json_load := Some no_height_json\<rparr>)
      else if p = ''negative.txt'' then Some (no_file\<lparr>readlines := [''-1 0.5 0.5 0.2 0.2'']\<rparr>)
      else if p = ''far.txt''
        then Some (no_file\<lparr>readlines := [''0 0.5 0.5 0.2 0.2'', ''-3 0.5 0.5 0.2 0.2'',
                                            ''1 0.5 0.5 0.2 0.2'']\<rparr>)
      else None)"

definition small_canvas :: canvas where
  \<comment> \<open>a 200 x 200 canvas, not scrolled\<close>
  "small_canvas = \<lparr>winfo_width = 200, winfo_height = 200, view_left = 0, view_top = 0\<rparr>"

definition pointer :: "int \<Rightarrow> int \<Rightarrow> event" where
  \<comment> \<open>a pointer event at a window position\<close>
  "pointer x y = \<lparr>ev_x = x, ev_y = y, delta = 0, num = None\<rparr>"



definition loaded_app :: app where
  \<comment> \<open>the state after \<^verbatim>\<open>Process Single Image\<close> on the picture and the JSON of
      Example 1: the picture fits the canvas at zoom 2 with no offset\<close>
  "loaded_app = process_single_image example_fs small_canvas init_app ''part.png'' ''part.json'' []"

definition stroke_app :: "exn + app" where
  \<comment> \<open>then one stroke drawn: press at (100, 100), drag to (200, 200), release\<close>
  "stroke_app =
     bind (start_draw small_canvas loaded_app (pointer 100 100)) (\<lambda>s1.
     bind (do_draw small_canvas s1 (pointer 200 200)) (\<lambda>s2.
       Inr (end_draw small_canvas s2 (pointer 200 200))))"

definition blue_line :: "real list \<Rightarrow> drawing" where
  \<comment> \<open>a stroke as \<^verbatim>\<open>end_draw\<close> stores it\<close>
  "blue_line coords = (coords, ''line'', [(''fill'', PStr ''blue''), (''width'', PInt 2)])"

definition drawn_app :: app where
  \<comment> \<open>the state \<open>stroke_app\<close> ends in: one stroke from (50, 50) to (100, 100)\<close>
  "drawn_app = loaded_app\<lparr>drawings_on_canvas := [blue_line [50, 50, 100, 100]],
                          current_drawing_coords_unscaled := [50, 50, 100, 100]\<rparr>"

definition two_strokes_app :: app where
  \<comment> \<open>the same with a second stroke from (10, 10) to (20, 20)\<close>
  "two_strokes_app =
     drawn_app\<lparr>drawings_on_canvas := [blue_line [50, 50, 100, 100], blue_line [10, 10, 20, 20]]\<rparr>"

section \<open>Basic facts\<close>

lemma bind_Inr [simp]: "bind (Inr v) f = f v"
  by (simp add: bind_def)

lemma bind_Inl [simp]: "bind (Inl e) f = Inl e"
  by (simp add: bind_def)

lemma is_Exception_all: "is_Exception e"
  by (cases e) (simp_all add: is_Exception_def)

lemma parse_annotations_returns_try:
  "\<exists>printed. parse_annotations fs p w h cn = Inr (fst (parse_try fs p w h cn), printed)"
proof (cases "parse_try fs p w h cn")
  case (fields annotations printed raised)
  show ?thesis
  proof (cases raised)
    case None
    with fields show ?thesis by (simp add: parse_annotations_def)
  next
    case (Some e)
    with fields is_Exception_all [of e] show ?thesis
      by (simp add: parse_annotations_def)
  qed
qed

lemma parse_try_missing_file: "fs p = None \<Longrightarrow> fst (parse_try fs p w h cn) = []"
  by (simp add: parse_try_def parse_json_file_def parse_xml_file_def parse_txt_file_def)

lemma parse_try_unsupported_iff:
  "(parse_try fs p w h cn = ([], [Unsupported_format (file_extension p) p], None))
   = (file_extension p \<noteq> ''.json'' \<and> file_extension p \<noteq> ''.xml''
      \<and> file_extension p \<noteq> ''.txt'')"
  by (auto simp: parse_try_def parse_json_file_def parse_xml_file_def parse_txt_file_def
        json_branch_def Let_def
      split: option.splits prod.splits pyval.splits sum.splits bool.splits if_splits)

lemma json_branch_boxes_path: "fst (json_branch p d) = fst (json_branch q d)"
  by (simp add: json_branch_def Let_def split: pyval.splits sum.splits bool.splits prod.splits)

lemma parse_try_same_file:
  assumes "file_extension p = file_extension q" and "fs p = fs q"
  shows "fst (parse_try fs p w h cn) = fst (parse_try fs q w h cn)"
  using assms json_branch_boxes_path [of p _ q]
  by (auto simp: parse_try_def parse_json_file_def parse_xml_file_def parse_txt_file_def Let_def
      split: option.splits prod.splits)

lemma integer_entryD:
  assumes "integer_entry anno = Some (lbl, x, y, width, height)"
  obtains a c where "anno = PDict a" and "map_of a ''coordinates'' = Some (PDict c)"
    and "map_of c ''x'' = Some (PInt x)" and "map_of c ''y'' = Some (PInt y)"
    and "map_of c ''width'' = Some (PInt width)" and "map_of c ''height'' = Some (PInt height)"
    and "lbl = (case map_of a ''label'' of Some l \<Rightarrow> l | None \<Rightarrow> PStr ''No Label'')"
  using assms
  by (auto simp: integer_entry_def split: pyval.splits option.splits)

lemma json_entry_integer:
  assumes "integer_entry anno = Some (lbl, x, y, width, height)"
  shows "json_entry anno = Inr (Some \<lparr>label = lbl, x_min = x, y_min = y,
                                       x_max = x + width, y_max = y + height\<rparr>)"
proof -
  from assms obtain a c where anno: "anno = PDict a"
    and coords: "map_of a ''coordinates'' = Some (PDict c)"
    and x: "map_of c ''x'' = Some (PInt x)" and y: "map_of c ''y'' = Some (PInt y)"
    and w: "map_of c ''width'' = Some (PInt width)"
    and h: "map_of c ''height'' = Some (PInt height)"
    and lbl: "lbl = (case map_of a ''label'' of Some l \<Rightarrow> l | None \<Rightarrow> PStr ''No Label'')"
    by (rule integer_entryD)
  from x have "c \<noteq> []" by auto
  with anno coords x y w h lbl show ?thesis
    by (simp add: json_entry_def)
qed

lemma for_append_append:
  "for_append body (xs @ ys) acc =
     (case for_append body xs acc of
        (acc', None) \<Rightarrow> for_append body ys acc'
      | (acc', Some e) \<Rightarrow> (acc', Some e))"
  by (induction xs arbitrary: acc) (auto split: sum.splits option.splits)

lemma for_append_skip:
  "body item = Inr None \<Longrightarrow>
     for_append body (before @ item # after) acc = for_append body (before @ after) acc"
  by (simp add: for_append_append split: prod.splits option.splits)

lemma json_entry_lacking:
  assumes "map_of anno ''coordinates'' = Some (PDict c)" and "lacks_coordinate c"
  shows "json_entry (PDict anno) = Inr None"
  using assms
  by (auto simp: json_entry_def lacks_coordinate_def)

lemma json_branch_annotations:
  assumes "map_of doc ''annotations'' = Some (PList annos)"
  shows "json_branch p (PList (PDict doc # others))
           = (fst (for_append json_entry annos []), [], snd (for_append json_entry annos []))"
proof -
  from assms have "''annotations'' \<in> fst ` set doc"
    by (metis map_of_eq_None_iff option.distinct(1))
  with assms show ?thesis
    by (simp add: json_branch_def split: prod.splits)
qed


lemma yolo_label_in_range:
  "0 \<le> class_id \<Longrightarrow>
   yolo_label class_names class_id =
     Inr (PStr (case class_names of
                  None \<Rightarrow> ''Class '' @ str_int class_id
                | Some names \<Rightarrow>
                    if class_id < int (length names) then names ! nat class_id
                    else ''Class '' @ str_int class_id))"
  by (auto simp: yolo_label_def list_index_def split: option.splits)

lemma redraw_canvas_keeps [simp]:
  "original_image_pil (redraw_canvas cv st) = original_image_pil st"
  "zoom_level (redraw_canvas cv st) = zoom_level st"
  "drawings_on_canvas (redraw_canvas cv st) = drawings_on_canvas st"
  by (simp_all add: redraw_canvas_def Let_def split: option.splits)

lemma fit_image_to_canvas_keeps [simp]:
  "original_image_pil (fit_image_to_canvas cv st) = original_image_pil st"
  "drawings_on_canvas (fit_image_to_canvas cv st) = drawings_on_canvas st"
  by (simp_all add: fit_image_to_canvas_def Let_def split: option.splits)

lemma on_mouse_wheel_zoom_image [simp]:
  "original_image_pil (on_mouse_wheel_zoom cv st ev) = original_image_pil st"
  by (simp add: on_mouse_wheel_zoom_def split: option.splits)


lemma zoom_gestures_image [simp]:
  "original_image_pil (zoom_gestures gs st) = original_image_pil st"
  by (induction gs arbitrary: st) (simp_all add: zoom_gestures_def)


lemma redraw_canvas_keeps_current [simp]:
  "current_drawing_coords_unscaled (redraw_canvas cv st) = current_drawing_coords_unscaled st"
  by (simp add: redraw_canvas_def Let_def split: option.splits)


lemma loaded_zoom: "zoom_level loaded_app = 2"
  by code_simp

lemma offset_coords_pair:
  "offset_coords st [a, b] = [a * zoom_level st + image_x_offset st,
                               b * zoom_level st + image_y_offset st]"
  by (simp add: offset_coords_def upt_rec)

lemma near_any_paired:
  "even (length cs) \<Longrightarrow>
     near_any cs erase_x erase_y tolerance
       = Inr (list_ex (near erase_x erase_y tolerance) (points cs))"
  by (induction cs erase_x erase_y tolerance rule: near_any.induct) (auto simp: near_def)

lemma erase_near_paired:
  "paired ds \<Longrightarrow>
     erase_near erase_x erase_y tolerance ds
       = Inr (filter (\<lambda>d. \<not> touched erase_x erase_y tolerance d) ds)"
  by (induction ds) (simp_all add: paired_def touched_def near_any_paired)

lemma stroke_app_drawn: "stroke_app = Inr drawn_app"
  by code_simp

lemma draw_boxes_length: "draw_boxes annotations = Inr ops \<Longrightarrow> length ops = 2 * length annotations"
proof (induction annotations arbitrary: ops)
  case Nil
  then show ?case by simp
next
  case (Cons a rest)
  then show ?case
    by (auto simp: draw_box_def Let_def bind_def split: sum.splits pyval.splits)
qed

lemma process_single_image_shows:
  assumes "image_p \<noteq> []" and "label_p \<noteq> []" and "fs image_p = Some f"
    and "image_open f = Some sz" and "fs label_p \<noteq> None"
    and "parse_annotations fs label_p (fst sz) (snd sz)
           (if classes_p \<noteq> [] then Some (load_yolo_classes fs (Some classes_p)) else None)
         = Inr (annotations, printed)"
    and "draw_boxes annotations = Inr ops"
  shows "original_image_pil (process_single_image fs cv st image_p label_p classes_p)
           = Some \<lparr>opened_from = image_p, img_size = sz, painted = ops\<rparr>"
    and "drawings_on_canvas (process_single_image fs cv st image_p label_p classes_p) = []"
  using assms
  by (auto simp: process_single_image_def draw_bounding_boxes_def display_image_on_canvas_def
      Let_def)

subsection \<open>Strokes hold whole points\<close>

text \<open>
  Every handler keeps \<open>well_formed\<close>, which holds in the initial state: the stroke lists
  that \<^verbatim>\<open>do_erase\<close> and \<^verbatim>\<open>save_current_image\<close> meet have an even number of
  coordinates.
\<close>

lemma well_formed_init: "well_formed init_app"
  by (simp add: well_formed_def paired_def init_app_def)

lemma well_formed_redraw [simp]: "well_formed (redraw_canvas cv st) = well_formed st"
  by (simp add: well_formed_def redraw_canvas_def Let_def split: option.splits)

lemma well_formed_fit [simp]: "well_formed (fit_image_to_canvas cv st) = well_formed st"
  by (simp add: fit_image_to_canvas_def Let_def split: option.splits)
     (simp add: well_formed_def)

lemma well_formed_zoom: "well_formed (on_mouse_wheel_zoom cv st ev) = well_formed st"
  by (simp add: on_mouse_wheel_zoom_def split: option.splits) (simp add: well_formed_def)

lemma well_formed_cleared:
  "well_formed st \<Longrightarrow> well_formed (st\<lparr>drawings_on_canvas := [], original_image_pil := img\<rparr>)"
  by (simp add: well_formed_def paired_def)

lemma well_formed_process:
  "well_formed st \<Longrightarrow> well_formed (process_single_image fs cv st image_p label_p classes_p)"
  by (simp add: process_single_image_def display_image_on_canvas_def Let_def
        well_formed_cleared
      split: option.splits sum.splits prod.splits)

lemma well_formed_start_draw:
  "well_formed st \<Longrightarrow> start_draw cv st ev = Inr st' \<Longrightarrow> well_formed st'"
  by (auto simp: start_draw_def canvas_to_image_coords_def well_formed_def
      split: option.splits if_splits)

lemma well_formed_do_draw:
  "well_formed st \<Longrightarrow> do_draw cv st ev = Inr st' \<Longrightarrow> well_formed st'"
  by (auto simp: do_draw_def canvas_to_image_coords_def well_formed_def
      split: if_splits)

lemma well_formed_end_draw: "well_formed st \<Longrightarrow> well_formed (end_draw cv st ev)"
  by (auto simp: end_draw_def well_formed_def paired_def)

lemma well_formed_do_erase:
  "well_formed st \<Longrightarrow> do_erase cv st ev = Inr st' \<Longrightarrow> well_formed st'"
  by (auto simp: do_erase_def canvas_to_image_coords_def well_formed_def Let_def
        erase_near_paired paired_def list_all_iff
      split: option.splits if_splits)

section \<open>The parser never raises\<close>

text \<open>
  Claim C7. Whatever the file system holds at the path, \<^verbatim>\<open>parse_annotations\<close> returns a
  list of boxes and raises nothing: an exception that ends the \<^verbatim>\<open>try\<close> block is
  caught by one of the three \<^verbatim>\<open>except\<close> clauses, and the list returned is the one
  built up to that point. It is empty for a missing file, for a file that is not JSON
  or not XML, and for an extension other than the three.
\<close>

theorem parse_annotations_never_raises:
  "(\<exists>printed. parse_annotations fs p w h cn = Inr (fst (parse_try fs p w h cn), printed))
   \<and> (fs p = None \<longrightarrow> (\<exists>printed. parse_annotations fs p w h cn = Inr ([], printed)))
   \<and> (file_extension p = ''.json'' \<and> (\<exists>f. fs p = Some f \<and> json_load f = None)
        \<longrightarrow> (\<exists>printed. parse_annotations fs p w h cn = Inr ([], printed)))
   \<and> (file_extension p = ''.xml'' \<and> (\<exists>f. fs p = Some f \<and> et_parse f = None)
        \<longrightarrow> (\<exists>printed. parse_annotations fs p w h cn = Inr ([], printed)))
   \<and> (file_extension p \<noteq> ''.json'' \<and> file_extension p \<noteq> ''.xml''
        \<and> file_extension p \<noteq> ''.txt''
        \<longrightarrow> (\<exists>printed. parse_annotations fs p w h cn = Inr ([], printed)))"
proof (intro conjI impI)
  show "\<exists>printed. parse_annotations fs p w h cn = Inr (fst (parse_try fs p w h cn), printed)"
    by (rule parse_annotations_returns_try)
next
  assume "fs p = None"
  then have "fst (parse_try fs p w h cn) = []"
    by (rule parse_try_missing_file)
  with parse_annotations_returns_try [of fs p w h cn]
  show "\<exists>printed. parse_annotations fs p w h cn = Inr ([], printed)"
    by simp
next
  assume "file_extension p = ''.json'' \<and> (\<exists>f. fs p = Some f \<and> json_load f = None)"
  then have "fst (parse_try fs p w h cn) = []"
    by (auto simp: parse_try_def parse_json_file_def)
  with parse_annotations_returns_try [of fs p w h cn]
  show "\<exists>printed. parse_annotations fs p w h cn = Inr ([], printed)"
    by simp
next
  assume "file_extension p = ''.xml'' \<and> (\<exists>f. fs p = Some f \<and> et_parse f = None)"
  then have "fst (parse_try fs p w h cn) = []"
    by (auto simp: parse_try_def parse_xml_file_def)
  with parse_annotations_returns_try [of fs p w h cn]
  show "\<exists>printed. parse_annotations fs p w h cn = Inr ([], printed)"
    by simp
next
  assume "file_extension p \<noteq> ''.json'' \<and> file_extension p \<noteq> ''.xml''
      \<and> file_extension p \<noteq> ''.txt''"
  then have "fst (parse_try fs p w h cn) = []"
    by (simp add: parse_try_def)
  with parse_annotations_returns_try [of fs p w h cn]
  show "\<exists>printed. parse_annotations fs p w h cn = Inr ([], printed)"
    by simp
qed

text \<open>
  The four failures at concrete paths of \<open>example_fs\<close>: a path with no file, a
  \<^verbatim>\<open>.json\<close> file that is not JSON, an \<^verbatim>\<open>.xml\<close> file that is not XML, and a
  picture's extension.
\<close>

theorem parse_annotations_never_raises_witness:
  "(\<exists>printed. parse_annotations example_fs ''absent.txt'' 100 100 None = Inr ([], printed))
   \<and> (\<exists>printed. parse_annotations example_fs ''broken.json'' 100 100 None = Inr ([], printed))
   \<and> (\<exists>printed. parse_annotations example_fs ''broken.xml'' 100 100 None = Inr ([], printed))
   \<and> (\<exists>printed. parse_annotations example_fs ''part.png'' 100 100 None = Inr ([], printed))"
proof (intro conjI)
  have "example_fs ''absent.txt'' = None"
    by (simp add: example_fs_def)
  with parse_annotations_never_raises [of example_fs "''absent.txt''" 100 100 None]
  show "\<exists>printed. parse_annotations example_fs ''absent.txt'' 100 100 None = Inr ([], printed)"
    by blast
next
  have "file_extension ''broken.json'' = ''.json''"
    by code_simp
  moreover have "example_fs ''broken.json'' = Some no_file \<and> json_load no_file = None"
    by (simp add: example_fs_def no_file_def)
  ultimately show
    "\<exists>printed. parse_annotations example_fs ''broken.json'' 100 100 None = Inr ([], printed)"
    using parse_annotations_never_raises [of example_fs "''broken.json''" 100 100 None]
    by blast
next
  have "file_extension ''broken.xml'' = ''.xml''"
    by code_simp
  moreover have "example_fs ''broken.xml'' = Some no_file \<and> et_parse no_file = None"
    by (simp add: example_fs_def no_file_def)
  ultimately show
    "\<exists>printed. parse_annotations example_fs ''broken.xml'' 100 100 None = Inr ([], printed)"
    using parse_annotations_never_raises [of example_fs "''broken.xml''" 100 100 None]
    by blast
next
  have "file_extension ''part.png'' = ''.png''"
    by code_simp
  then have "file_extension ''part.png'' \<noteq> ''.json'' \<and> file_extension ''part.png'' \<noteq> ''.xml''
      \<and> file_extension ''part.png'' \<noteq> ''.txt''"
    by simp
  with parse_annotations_never_raises [of example_fs "''part.png''" 100 100 None]
  show "\<exists>printed. parse_annotations example_fs ''part.png'' 100 100 None = Inr ([], printed)"
    by blast
qed

section \<open>Dispatch on the extension\<close>

text \<open>
  Claim C10. The branch of \<^verbatim>\<open>parse_annotations\<close> is chosen by the lower-cased
  extension of the path: a path whose extension is \<^verbatim>\<open>.json\<close>, \<^verbatim>\<open>.xml\<close> or
  \<^verbatim>\<open>.txt\<close> up to the case of its letters runs the JSON, the XML or the YOLO reader,
  the unsupported-format branch (no box, one notice) is taken exactly when the
  lower-cased extension is none of the three, and two paths that hold the same file and
  whose extensions agree up to case give the same boxes.
\<close>

theorem extension_dispatch_ignores_case:
  "(lower (splitext_ext p) = ''.json'' \<longrightarrow> parse_try fs p w h cn = parse_json_file fs p)
   \<and> (lower (splitext_ext p) = ''.xml'' \<longrightarrow> parse_try fs p w h cn = parse_xml_file fs p)
   \<and> (lower (splitext_ext p) = ''.txt'' \<longrightarrow>
        parse_try fs p w h cn = parse_txt_file fs p w h cn)
   \<and> ((parse_try fs p w h cn = ([], [Unsupported_format (lower (splitext_ext p)) p], None))
        = (lower (splitext_ext p) \<noteq> ''.json'' \<and> lower (splitext_ext p) \<noteq> ''.xml''
           \<and> lower (splitext_ext p) \<noteq> ''.txt''))
   \<and> (lower (splitext_ext p) = lower (splitext_ext q) \<and> fs p = fs q \<longrightarrow>
        fst (parse_try fs p w h cn) = fst (parse_try fs q w h cn))"
proof (intro conjI impI)
  assume "lower (splitext_ext p) = ''.json''"
  then show "parse_try fs p w h cn = parse_json_file fs p"
    by (simp add: parse_try_def file_extension_def)
next
  assume "lower (splitext_ext p) = ''.xml''"
  then show "parse_try fs p w h cn = parse_xml_file fs p"
    by (simp add: parse_try_def file_extension_def)
next
  assume "lower (splitext_ext p) = ''.txt''"
  then show "parse_try fs p w h cn = parse_txt_file fs p w h cn"
    by (simp add: parse_try_def file_extension_def)
next
  show "(parse_try fs p w h cn = ([], [Unsupported_format (lower (splitext_ext p)) p], None))
        = (lower (splitext_ext p) \<noteq> ''.json'' \<and> lower (splitext_ext p) \<noteq> ''.xml''
           \<and> lower (splitext_ext p) \<noteq> ''.txt'')"
    using parse_try_unsupported_iff [of fs p w h cn] by (simp add: file_extension_def)
next
  assume "lower (splitext_ext p) = lower (splitext_ext q) \<and> fs p = fs q"
  then show "fst (parse_try fs p w h cn) = fst (parse_try fs q w h cn)"
    by (intro parse_try_same_file) (simp_all add: file_extension_def)
qed

text \<open>The paths \<^verbatim>\<open>PART.JSON\<close>, \<^verbatim>\<open>Part.Txt\<close>, \<^verbatim>\<open>broken.XML\<close> and \<^verbatim>\<open>part.png\<close>.\<close>

theorem extension_dispatch_ignores_case_witness:
  "parse_try example_fs ''PART.JSON'' 100 100 None = parse_json_file example_fs ''PART.JSON''
   \<and> parse_try example_fs ''broken.XML'' 100 100 None = parse_xml_file example_fs ''broken.XML''
   \<and> parse_try example_fs ''Part.Txt'' 100 100 None
       = parse_txt_file example_fs ''Part.Txt'' 100 100 None
   \<and> parse_try example_fs ''part.png'' 100 100 None
       = ([], [Unsupported_format ''.png'' ''part.png''], None)
   \<and> fst (parse_try example_fs ''PART.JSON'' 100 100 None)
       = fst (parse_try example_fs ''part.json'' 100 100 None)"
proof (intro conjI)
  have json: "lower (splitext_ext ''PART.JSON'') = ''.json''"
    by code_simp
  with extension_dispatch_ignores_case [of "''PART.JSON''" example_fs 100 100 None]
  show "parse_try example_fs ''PART.JSON'' 100 100 None
      = parse_json_file example_fs ''PART.JSON''"
    by blast
  have "lower (splitext_ext ''part.json'') = ''.json''"
    by code_simp
  moreover have "example_fs ''PART.JSON'' = example_fs ''part.json''"
    by (simp add: example_fs_def)
  ultimately have "lower (splitext_ext ''PART.JSON'') = lower (splitext_ext ''part.json'')
      \<and> example_fs ''PART.JSON'' = example_fs ''part.json''"
    using json by simp
  with extension_dispatch_ignores_case [of "''PART.JSON''" example_fs 100 100 None "''part.json''"]
  show "fst (parse_try example_fs ''PART.JSON'' 100 100 None)
      = fst (parse_try example_fs ''part.json'' 100 100 None)"
    by blast
next
  have "lower (splitext_ext ''broken.XML'') = ''.xml''"
    by code_simp
  with extension_dispatch_ignores_case [of "''broken.XML''" example_fs 100 100 None]
  show "parse_try example_fs ''broken.XML'' 100 100 None
      = parse_xml_file example_fs ''broken.XML''"
    by blast
next
  have "lower (splitext_ext ''Part.Txt'') = ''.txt''"
    by code_simp
  with extension_dispatch_ignores_case [of "''Part.Txt''" example_fs 100 100 None]
  show "parse_try example_fs ''Part.Txt'' 100 100 None
      = parse_txt_file example_fs ''Part.Txt'' 100 100 None"
    by blast
next
  have png: "lower (splitext_ext ''part.png'') = ''.png''"
    by code_simp
  then have "lower (splitext_ext ''part.png'') \<noteq> ''.json''
      \<and> lower (splitext_ext ''part.png'') \<noteq> ''.xml''
      \<and> lower (splitext_ext ''part.png'') \<noteq> ''.txt''"
    by simp
  with extension_dispatch_ignores_case [of "''part.png''" example_fs 100 100 None]
  have "parse_try example_fs ''part.png'' 100 100 None
      = ([], [Unsupported_format (lower (splitext_ext ''part.png'')) ''part.png''], None)"
    by blast
  with png show "parse_try example_fs ''part.png'' 100 100 None
      = ([], [Unsupported_format ''.png'' ''part.png''], None)"
    by simp
qed

section \<open>Custom JSON: the box of an entry\<close>

text \<open>
  Claim C3, as amended. For a custom-JSON entry whose fields \<^verbatim>\<open>x\<close>, \<^verbatim>\<open>y\<close>,
  \<^verbatim>\<open>width\<close> and \<^verbatim>\<open>height\<close> are all present and integers, the box appended has
  \<open>x_min = x\<close>, \<open>y_min = y\<close>, \<open>x_max = x + width\<close> and \<open>y_max = y + height\<close>, so
  \<open>x_max - x_min = width\<close> and \<open>y_max - y_min = height\<close>; and the file of Example 1
  gives exactly the one box \<^verbatim>\<open>{Weight, 10, 20, 40, 60}\<close> and prints nothing.
\<close>

theorem json_integer_entry_box:
  "(integer_entry anno = Some (lbl, x, y, width, height) \<longrightarrow>
      (\<exists>b. json_entry anno = Inr (Some b)
          \<and> label b = lbl \<and> x_min b = x \<and> y_min b = y
          \<and> x_max b = x + width \<and> y_max b = y + height
          \<and> x_max b - x_min b = width \<and> y_max b - y_min b = height))
   \<and> parse_annotations example_fs ''part.json'' 100 100 None
       = Inr ([\<lparr>label = PStr ''Weight'', x_min = 10, y_min = 20, x_max = 40, y_max = 60\<rparr>], [])"
proof (intro conjI impI)
  assume "integer_entry anno = Some (lbl, x, y, width, height)"
  then have "json_entry anno = Inr (Some \<lparr>label = lbl, x_min = x, y_min = y,
                                       x_max = x + width, y_max = y + height\<rparr>)"
    by (rule json_entry_integer)
  then show "\<exists>b. json_entry anno = Inr (Some b)
          \<and> label b = lbl \<and> x_min b = x \<and> y_min b = y
          \<and> x_max b = x + width \<and> y_max b = y + height
          \<and> x_max b - x_min b = width \<and> y_max b - y_min b = height"
    by simp
next
  show "parse_annotations example_fs ''part.json'' 100 100 None
       = Inr ([\<lparr>label = PStr ''Weight'', x_min = 10, y_min = 20, x_max = 40, y_max = 60\<rparr>], [])"
    by code_simp
qed

text \<open>The entry of Example 1.\<close>

theorem json_integer_entry_box_witness:
  "\<exists>b. json_entry (PDict [(''label'', PStr ''Weight''),
                     (''coordinates'', PDict [(''x'', PInt 10), (''y'', PInt 20),
                                              (''width'', PInt 30), (''height'', PInt 40)])])
        = Inr (Some b)
      \<and> label b = PStr ''Weight'' \<and> x_min b = 10 \<and> y_min b = 20
      \<and> x_max b = 10 + 30 \<and> y_max b = 20 + 40
      \<and> x_max b - x_min b = 30 \<and> y_max b - y_min b = 40"
proof -
  have "integer_entry (PDict [(''label'', PStr ''Weight''),
                     (''coordinates'', PDict [(''x'', PInt 10), (''y'', PInt 20),
                                              (''width'', PInt 30), (''height'', PInt 40)])])
        = Some (PStr ''Weight'', 10, 20, 30, 40)"
    by (simp add: integer_entry_def)
  with json_integer_entry_box show ?thesis
    by blast
qed

text \<open>
  The claim as written covers every entry that has the four fields. The parser applies
  \<^verbatim>\<open>int(...)\<close> to \<^verbatim>\<open>x\<close> and to \<^verbatim>\<open>x + width\<close>, which rounds a fraction towards
  zero: with \<^verbatim>\<open>"x": 0.5\<close> and \<^verbatim>\<open>"width": 0.5\<close> the box has \<open>x_min = 0\<close> and
  \<open>x_max = 1\<close>, so \<open>x_min\<close> is not \<open>x\<close> and \<open>x_max - x_min\<close> is not the width.
\<close>

theorem json_fractional_entry_counterexample:
  "parse_annotations odd_fs ''half.json'' 100 100 None
     = Inr ([\<lparr>label = PStr ''Weight'', x_min = 0, y_min = 20, x_max = 1, y_max = 60\<rparr>], [])
   \<and> real_of_int (0::int) \<noteq> 1 / 2 \<and> real_of_int ((1::int) - 0) \<noteq> 1 / 2"
proof -
  have "parse_annotations odd_fs ''half.json'' 100 100 None
     = Inr ([\<lparr>label = PStr ''Weight'', x_min = 0, y_min = 20, x_max = 1, y_max = 60\<rparr>], [])"
    by code_simp
  then show ?thesis by simp
qed

section \<open>Custom JSON: an entry without all four fields\<close>

text \<open>
  Claim C8, as amended. A custom-JSON entry whose \<^verbatim>\<open>coordinates\<close> lack one of
  \<^verbatim>\<open>x\<close>, \<^verbatim>\<open>y\<close>, \<^verbatim>\<open>width\<close>, \<^verbatim>\<open>height\<close> is skipped: it appends no box, the loop
  goes on with the entries after it, and the whole result of the JSON reader (boxes,
  printed lines, exception) is the one of the same file without that entry. In
  particular nothing is printed for it.
\<close>

theorem json_entry_missing_field_skipped:
  assumes "map_of anno ''coordinates'' = Some (PDict c)" and "lacks_coordinate c"
    and "map_of doc ''annotations'' = Some (PList (before @ PDict anno # after))"
    and "map_of doc' ''annotations'' = Some (PList (before @ after))"
  shows "json_entry (PDict anno) = Inr None
    \<and> for_append json_entry (before @ PDict anno # after) acc
        = for_append json_entry (before @ after) acc
    \<and> json_branch p (PList (PDict doc # others)) = json_branch p (PList (PDict doc' # others'))"
proof -
  have skipped: "json_entry (PDict anno) = Inr None"
    using assms(1,2) by (rule json_entry_lacking)
  then have same: "for_append json_entry (before @ PDict anno # after) acc'
        = for_append json_entry (before @ after) acc'" for acc'
    by (rule for_append_skip)
  from skipped same [of acc] same [of "[]"] assms(3,4) show ?thesis
    by (simp add: json_branch_annotations)
qed

text \<open>Example 1 with the field \<^verbatim>\<open>height\<close> left out.\<close>

theorem json_entry_missing_field_skipped_witness:
  "json_entry (PDict [(''label'', PStr ''Weight''),
                      (''coordinates'', PDict [(''x'', PInt 10), (''y'', PInt 20),
                                               (''width'', PInt 30)])]) = Inr None
   \<and> json_branch ''noheight.json'' no_height_json
       = json_branch ''noheight.json'' (PList [PDict [(''annotations'', PList [])]])"
proof -
  have "lacks_coordinate [(''x'', PInt 10), (''y'', PInt 20), (''width'', PInt 30)]"
    by (simp add: lacks_coordinate_def)
  from json_entry_missing_field_skipped
    [of "[(''label'', PStr ''Weight''),
          (''coordinates'', PDict [(''x'', PInt 10), (''y'', PInt 20), (''width'', PInt 30)])]"
        "[(''x'', PInt 10), (''y'', PInt 20), (''width'', PInt 30)]"
        "[(''annotations'',
           PList [PDict [(''label'', PStr ''Weight''),
                     (''coordinates'', PDict [(''x'', PInt 10), (''y'', PInt 20),
                                              (''width'', PInt 30)])]])]"
        "[]" "[]" "[(''annotations'', PList [])]" "[]" "''noheight.json''" "[]" "[]", OF _ this]
  show ?thesis
    by (simp add: no_height_json_def)
qed

text \<open>
  The claim as written has a warning logged for the skipped entry. The parser has no
  \<^verbatim>\<open>print\<close> on that path: for the file that holds only the entry without
  \<^verbatim>\<open>height\<close>, it returns no box and has printed no line at all.
\<close>

theorem json_missing_field_silent_counterexample:
  "parse_annotations odd_fs ''noheight.json'' 100 100 None = Inr ([], [])"
  by code_simp

section \<open>YOLO: the box of a line\<close>



section \<open>YOLO: the label of a class id\<close>

text \<open>
  Claim C6 says that a class id outside the table, a negative one included, is labelled
  \<^verbatim>\<open>Class {id}\<close>. The test in the source is \<^verbatim>\<open>class_id < len(class_names)\<close> only,
  so a negative id passes it and indexes the table from its end: with the table
  \<^verbatim>\<open>["cat", "dog"]\<close> the line \<^verbatim>\<open>-1 0.5 0.5 0.2 0.2\<close> is labelled \<^verbatim>\<open>dog\<close>, and
  the id \<^verbatim>\<open>-3\<close> raises \<^verbatim>\<open>IndexError\<close>, which ends the parse: the lines after
  it are lost.
\<close>

theorem yolo_negative_class_id_wraps:
  "parse_annotations odd_fs ''negative.txt'' 100 100 (Some [''cat'', ''dog''])
     = Inr ([\<lparr>label = PStr ''dog'', x_min = 40, y_min = 40, x_max = 60, y_max = 60\<rparr>], [])
   \<and> parse_annotations odd_fs ''far.txt'' 100 100 (Some [''cat'', ''dog''])
     = Inr ([\<lparr>label = PStr ''cat'', x_min = 40, y_min = 40, x_max = 60, y_max = 60\<rparr>],
            [Unexpected_error ''far.txt'' IndexError])"
  by code_simp

section \<open>Zooming with the wheel\<close>




section \<open>From the canvas to the picture and back\<close>

text \<open>
  Claim C4. For a positive zoom level and any offsets, \<^verbatim>\<open>_canvas_to_image_coords\<close>
  followed by the scaling and shifting of \<^verbatim>\<open>redraw_canvas\<close> gives back the canvas
  point it started from, hence a point within one pixel of it; on a canvas that is not
  scrolled this is the window position of the pointer. The arithmetic is exact here.
\<close>

theorem canvas_image_round_trip:
  assumes "0 < zoom_level st"
  shows "\<exists>img_x img_y.
      canvas_to_image_coords cv st canvas_x canvas_y = Inr (img_x, img_y)
      \<and> offset_coords st [img_x, img_y] = [canvasx cv canvas_x, canvasy cv canvas_y]
      \<and> \<bar>offset_coords st [img_x, img_y] ! 0 - canvasx cv canvas_x\<bar> < 1
      \<and> \<bar>offset_coords st [img_x, img_y] ! 1 - canvasy cv canvas_y\<bar> < 1
      \<and> (view_left cv = 0 \<and> view_top cv = 0 \<longrightarrow>
           offset_coords st [img_x, img_y] = [real_of_int canvas_x, real_of_int canvas_y])"
  using assms
  by (simp add: canvas_to_image_coords_def offset_coords_pair canvasx_def canvasy_def)

text \<open>The window position (150, 60) on the loaded picture at zoom 2.\<close>

theorem canvas_image_round_trip_witness:
  "\<exists>img_x img_y.
      canvas_to_image_coords small_canvas loaded_app 150 60 = Inr (img_x, img_y)
      \<and> offset_coords loaded_app [img_x, img_y] = [150, 60]"
proof -
  have "0 < zoom_level loaded_app"
    by (simp add: loaded_zoom)
  moreover have "view_left small_canvas = 0 \<and> view_top small_canvas = 0"
    by (simp add: small_canvas_def)
  ultimately show ?thesis
    using canvas_image_round_trip [of loaded_app small_canvas 150 60]
    by auto
qed

section \<open>Erasing\<close>

text \<open>
  Claim C2, as amended. With a picture loaded, an erase gesture at the image point
  \<open>(erase_x, erase_y)\<close> removes exactly the strokes that have at least one point whose
  two axis distances to it are below \<open>5 / zoom_level\<close>, each such stroke with all of
  its points, and keeps every other stroke unchanged and in order.
\<close>

theorem erase_removes_touched_strokes:
  assumes "original_image_pil st \<noteq> None" and "0 < zoom_level st"
    and "paired (drawings_on_canvas st)"
  shows "\<exists>erase_x erase_y st'.
      canvas_to_image_coords cv st (ev_x ev) (ev_y ev) = Inr (erase_x, erase_y)
      \<and> do_erase cv st ev = Inr st'
      \<and> drawings_on_canvas st'
          = filter (\<lambda>d. \<not> touched erase_x erase_y (5 / zoom_level st) d) (drawings_on_canvas st)"
  using assms
  by (auto simp: do_erase_def canvas_to_image_coords_def Let_def erase_near_paired)

text \<open>
  At zoom 2 the pointer at (100, 100) is the image point (50, 50) and the tolerance is
  2.5: of two strokes the one through (50, 50) goes and the other stays.
\<close>

theorem erase_removes_touched_strokes_witness:
  "\<exists>st'. do_erase small_canvas two_strokes_app (pointer 100 100) = Inr st'
      \<and> drawings_on_canvas st' = [blue_line [10, 10, 20, 20]]"
proof -
  have img: "original_image_pil two_strokes_app \<noteq> None"
    by code_simp
  have zoom: "zoom_level two_strokes_app = 2"
    by code_simp
  have pairs: "paired (drawings_on_canvas two_strokes_app)"
    by code_simp
  have at: "canvas_to_image_coords small_canvas two_strokes_app
      (ev_x (pointer 100 100)) (ev_y (pointer 100 100)) = Inr (50, 50)"
    by code_simp
  have kept: "filter (\<lambda>d. \<not> touched 50 50 (5 / 2) d) (drawings_on_canvas two_strokes_app)
      = [blue_line [10, 10, 20, 20]]"
    by code_simp
  from zoom have "0 < zoom_level two_strokes_app"
    by simp
  from erase_removes_touched_strokes [OF img this pairs, of small_canvas "pointer 100 100"]
    at zoom kept
  show ?thesis
    by auto
qed

text \<open>
  The claim as written removes the stored points within the tolerance and no others.
  \<^verbatim>\<open>do_erase\<close> filters the list of strokes, not the points of a stroke: after a
  stroke from (50, 50) to (100, 100) is drawn, erasing at the image point (50, 50) at
  zoom 2 leaves no stroke, so the point (100, 100), which is 50 pixels away, is removed
  as well.
\<close>

theorem erase_whole_stroke_counterexample:
  "stroke_app = Inr drawn_app
   \<and> zoom_level drawn_app = 2
   \<and> drawings_on_canvas drawn_app = [blue_line [50, 50, 100, 100]]
   \<and> canvas_to_image_coords small_canvas drawn_app 100 100 = Inr (50, 50)
   \<and> do_erase small_canvas drawn_app (pointer 100 100)
       = Inr (drawn_app\<lparr>drawings_on_canvas := []\<rparr>)
   \<and> \<not> near 50 50 (5 / 2) (100, 100)"
proof (intro conjI)
  show "stroke_app = Inr drawn_app" by (rule stroke_app_drawn)
  show "zoom_level drawn_app = 2" by code_simp
  show "drawings_on_canvas drawn_app = [blue_line [50, 50, 100, 100]]" by code_simp
  show "canvas_to_image_coords small_canvas drawn_app 100 100 = Inr (50, 50)" by code_simp
  show "do_erase small_canvas drawn_app (pointer 100 100)
       = Inr (drawn_app\<lparr>drawings_on_canvas := []\<rparr>)" by code_simp
  show "\<not> near 50 50 (5 / 2) (100, 100)" by (simp add: near_def)
qed

section \<open>Saving\<close>

text \<open>
  Claim C1, as amended. With a picture loaded and a file name chosen, the picture handed
  to \<^verbatim>\<open>save\<close> is a copy of the session's picture with the current strokes of kind
  \<^verbatim>\<open>line\<close> drawn on it in order, and nothing else. The session's picture is the one
  \<^verbatim>\<open>draw_bounding_boxes\<close> returned when \<^verbatim>\<open>process_single_image\<close> loaded it: the
  rectangle and the label of every parsed box (two drawing calls per box) are already
  on it, so they are in the saved file too.
\<close>

theorem saved_image_is_session_image_with_strokes:
  "(original_image_pil st = Some img \<and> file_path \<noteq> [] \<longrightarrow>
      save_current_image st file_path
        = Some (file_path,
                img\<lparr>painted := painted img @ concat (map stroke_ops (drawings_on_canvas st))\<rparr>))
   \<and> (image_p \<noteq> [] \<and> label_p \<noteq> [] \<and> fs image_p = Some f \<and> image_open f = Some sz
        \<and> fs label_p \<noteq> None
        \<and> parse_annotations fs label_p (fst sz) (snd sz)
             (if classes_p \<noteq> [] then Some (load_yolo_classes fs (Some classes_p)) else None)
           = Inr (annotations, printed)
        \<and> draw_boxes annotations = Inr ops \<and> file_path \<noteq> [] \<longrightarrow>
      length ops = 2 * length annotations
      \<and> original_image_pil (process_single_image fs cv st0 image_p label_p classes_p)
          = Some \<lparr>opened_from = image_p, img_size = sz, painted = ops\<rparr>
      \<and> save_current_image (process_single_image fs cv st0 image_p label_p classes_p) file_path
          = Some (file_path, \<lparr>opened_from = image_p, img_size = sz, painted = ops\<rparr>))"
proof (intro conjI impI)
  assume "original_image_pil st = Some img \<and> file_path \<noteq> []"
  then show "save_current_image st file_path
        = Some (file_path,
                img\<lparr>painted := painted img @ concat (map stroke_ops (drawings_on_canvas st))\<rparr>)"
    by (simp add: save_current_image_def)
next
  assume a: "image_p \<noteq> [] \<and> label_p \<noteq> [] \<and> fs image_p = Some f \<and> image_open f = Some sz
        \<and> fs label_p \<noteq> None
        \<and> parse_annotations fs label_p (fst sz) (snd sz)
             (if classes_p \<noteq> [] then Some (load_yolo_classes fs (Some classes_p)) else None)
           = Inr (annotations, printed)
        \<and> draw_boxes annotations = Inr ops \<and> file_path \<noteq> []"
  then show "length ops = 2 * length annotations"
    by (simp add: draw_boxes_length)
  from a have shown: "original_image_pil (process_single_image fs cv st0 image_p label_p classes_p)
          = Some \<lparr>opened_from = image_p, img_size = sz, painted = ops\<rparr>"
    and cleared: "drawings_on_canvas (process_single_image fs cv st0 image_p label_p classes_p) = []"
    by (simp_all add: process_single_image_shows)
  from shown show "original_image_pil (process_single_image fs cv st0 image_p label_p classes_p)
          = Some \<lparr>opened_from = image_p, img_size = sz, painted = ops\<rparr>" .
  from a shown cleared
  show "save_current_image (process_single_image fs cv st0 image_p label_p classes_p) file_path
          = Some (file_path, \<lparr>opened_from = image_p, img_size = sz, painted = ops\<rparr>)"
    by (simp add: save_current_image_def)
qed

text \<open>
  Saving after one stroke was drawn on the picture of Example 1, and saving right after
  that picture was loaded.
\<close>

theorem saved_image_is_session_image_with_strokes_witness:
  "save_current_image drawn_app ''out.png''
     = Some (''out.png'',
             \<lparr>opened_from = ''part.png'', img_size = (100, 100),
                painted = [Rectangle 10 20 40 60 ''red'' 3, Text 10 25 ''Weight'' ''red'',
                           Line [50, 50, 100, 100] (PStr ''blue'') (PInt 2)]\<rparr>)
   \<and> save_current_image
         (process_single_image example_fs small_canvas init_app ''part.png'' ''part.json'' [])
         ''out.png''
     = Some (''out.png'',
             \<lparr>opened_from = ''part.png'', img_size = (100, 100),
                painted = [Rectangle 10 20 40 60 ''red'' 3, Text 10 25 ''Weight'' ''red'']\<rparr>)"
proof (intro conjI)
  have img: "original_image_pil drawn_app
      = Some \<lparr>opened_from = ''part.png'', img_size = (100, 100),
               painted = [Rectangle 10 20 40 60 ''red'' 3, Text 10 25 ''Weight'' ''red'']\<rparr>"
    by code_simp
  have strokes: "concat (map stroke_ops (drawings_on_canvas drawn_app))
      = [Line [50, 50, 100, 100] (PStr ''blue'') (PInt 2)]"
    by code_simp
  have "''out.png'' \<noteq> []"
    by simp
  with img saved_image_is_session_image_with_strokes [of drawn_app _ "''out.png''"]
  have "save_current_image drawn_app ''out.png''
     = Some (''out.png'',
         \<lparr>opened_from = ''part.png'', img_size = (100, 100),
            painted = [Rectangle 10 20 40 60 ''red'' 3, Text 10 25 ''Weight'' ''red'']\<rparr>
         \<lparr>painted := painted \<lparr>opened_from = ''part.png'', img_size = (100, 100),
            painted = [Rectangle 10 20 40 60 ''red'' 3, Text 10 25 ''Weight'' ''red'']\<rparr>
              @ concat (map stroke_ops (drawings_on_canvas drawn_app))\<rparr>)"
    by blast
  with strokes show "save_current_image drawn_app ''out.png''
     = Some (''out.png'',
             \<lparr>opened_from = ''part.png'', img_size = (100, 100),
                painted = [Rectangle 10 20 40 60 ''red'' 3, Text 10 25 ''Weight'' ''red'',
                           Line [50, 50, 100, 100] (PStr ''blue'') (PInt 2)]\<rparr>)"
    by simp
next
  have names: "''part.png'' \<noteq> [] \<and> ''part.json'' \<noteq> [] \<and> ''out.png'' \<noteq> []"
    by simp
  have pic: "example_fs ''part.png'' = Some (no_file\<lparr>image_open := Some (100, 100)\<rparr>)
      \<and> image_open (no_file\<lparr>image_open := Some (100, 100)\<rparr>) = Some (100, 100)"
    by (simp add: example_fs_def)
  have lab: "example_fs ''part.json'' \<noteq> None"
    by (simp add: example_fs_def)
  have parsed: "parse_annotations example_fs ''part.json'' (fst (100, 100)) (snd (100, 100))
       (if [] \<noteq> [] then Some (load_yolo_classes example_fs (Some [])) else None)
     = Inr ([\<lparr>label = PStr ''Weight'', x_min = 10, y_min = 20, x_max = 40, y_max = 60\<rparr>], [])"
    by code_simp
  have drawn: "draw_boxes [\<lparr>label = PStr ''Weight'', x_min = 10, y_min = 20, x_max = 40, y_max = 60\<rparr>]
     = Inr [Rectangle 10 20 40 60 ''red'' 3, Text 10 25 ''Weight'' ''red'']"
    by code_simp
  from names pic lab parsed drawn
    saved_image_is_session_image_with_strokes
      [of _ _ "''out.png''" "''part.png''" "''part.json''" example_fs
          "no_file\<lparr>image_open := Some (100, 100)\<rparr>" "(100, 100)" "[]"
          "[\<lparr>label = PStr ''Weight'', x_min = 10, y_min = 20, x_max = 40, y_max = 60\<rparr>]" "[]"
          "[Rectangle 10 20 40 60 ''red'' 3, Text 10 25 ''Weight'' ''red'']"
          small_canvas init_app]
  show "save_current_image
         (process_single_image example_fs small_canvas init_app ''part.png'' ''part.json'' [])
         ''out.png''
     = Some (''out.png'',
             \<lparr>opened_from = ''part.png'', img_size = (100, 100),
                painted = [Rectangle 10 20 40 60 ''red'' 3, Text 10 25 ''Weight'' ''red'']\<rparr>)"
    by blast
qed

text \<open>
  The claim as written has only the strokes persisted, not the parsed boxes. Saving right
  after the picture and the JSON of Example 1 were loaded, with no stroke drawn, writes
  the rectangle and the label of the box \<^verbatim>\<open>Weight\<close>.
\<close>

theorem saved_image_has_boxes_counterexample:
  "loaded_app = process_single_image example_fs small_canvas init_app ''part.png'' ''part.json'' []
   \<and> drawings_on_canvas loaded_app = []
   \<and> save_current_image loaded_app ''out.png''
     = Some (''out.png'',
             \<lparr>opened_from = ''part.png'', img_size = (100, 100),
                painted = [Rectangle 10 20 40 60 ''red'' 3, Text 10 25 ''Weight'' ''red'']\<rparr>)"
proof (intro conjI)
  show "loaded_app
      = process_single_image example_fs small_canvas init_app ''part.png'' ''part.json'' []"
    by (simp add: loaded_app_def)
  show "drawings_on_canvas loaded_app = []"
    by code_simp
  show "save_current_image loaded_app ''out.png''
     = Some (''out.png'',
             \<lparr>opened_from = ''part.png'', img_size = (100, 100),
                painted = [Rectangle 10 20 40 60 ''red'' 3, Text 10 25 ''Weight'' ''red'']\<rparr>)"
    by code_simp
qed

end
